theory Spec2Isabelle
  imports Complex_Main "HOL-Library.Word" "HOL-Library.Multiset" "HOL-Library.Signed_Division"
begin

section \<open>Conventions of the embedding\<close>

text \<open>
  The services of the trading system are C++ classes holding a \<^verbatim>\<open>map<string, V>\<close> and a
  vector of listener pointers. Each class is a record of its fields; a member function takes
  the record and returns the updated record together with the listener callbacks it made, in
  the order it made them.

  \<^item> \<^verbatim>\<open>double\<close> is modelled as \<open>rat\<close>: every finite double is a rational, and the
    arithmetic of the model is exact (rounding, infinities and NaN are outside the model).
    On prices that are multiples of 1/256 below \<open>2^31\<close> the C++ operations are exact too.
  \<^item> \<^verbatim>\<open>long\<close> quantities are \<open>64 word\<close>: \<open>+=\<close> wraps around.
  \<^item> \<^verbatim>\<open>int\<close> results of a conversion from \<^verbatim>\<open>double\<close> are range-checked: the
    conversion is undefined outside the 32-bit range and the model returns an error there.
  \<^item> A listener is identified by a number (its pointer); a callback
    \<^verbatim>\<open>l->ProcessAdd(_data)\<close> is the event \<open>ProcessAdd l data\<close>. Listeners are
    opaque: they do not call back into the service that notifies them.
  \<^item> An exception, an out-of-range index and a read of an uninitialised local are values
    of type \<open>error\<close>.
\<close>

datatype error =
    InvalidArgument      \<comment> \<open>\<^verbatim>\<open>std::invalid_argument\<close> of \<^verbatim>\<open>stod\<close>, \<^verbatim>\<open>stol\<close>\<close>
  | OutOfRange           \<comment> \<open>\<^verbatim>\<open>std::out_of_range\<close> of \<^verbatim>\<open>stol\<close>\<close>
  | IndexOutOfRange      \<comment> \<open>\<^verbatim>\<open>_cells[i]\<close> past the end of the vector\<close>
  | UninitialisedRead    \<comment> \<open>a local read before any assignment\<close>
  | IntConversion        \<comment> \<open>\<^verbatim>\<open>double\<close> to \<^verbatim>\<open>int\<close> outside the range of \<^verbatim>\<open>int\<close>\<close>
  | Unmodelled           \<comment> \<open>an input of a library function that the model does not cover\<close>
  | DanglingReference    \<comment> \<open>a reference to an object whose lifetime has ended\<close>

datatype 'v event = ProcessAdd nat 'v

text \<open>\<^verbatim>\<open>for (auto& l : listeners) l->ProcessAdd(_data);\<close>\<close>

definition dispatch :: "nat list \<Rightarrow> 'v \<Rightarrow> 'v event list" where
  "dispatch ls d = map (\<lambda>l. ProcessAdd l d) ls"

section \<open>Products (products.hpp, functions.hpp)\<close>

datatype BondIdType = CUSIP | ISIN

text \<open>
  Modelled from the spec: class \<^verbatim>\<open>Bond\<close> and its default constructor (products.hpp is not
  among the sources). The fields are the arguments of the constructor calls in
  \<^verbatim>\<open>GetBond\<close>; the spec says that the default bond has empty fields. The maturity date is
  kept as the string handed to \<^verbatim>\<open>from_string\<close>.
\<close>

record Bond =
  Bond_productId :: string
  Bond_bondIdType :: BondIdType
  Bond_ticker :: string
  Bond_coupon :: rat
  Bond_maturityDate :: string

definition Bond_default :: Bond where
  "Bond_default = \<lparr>Bond_productId = [], Bond_bondIdType = CUSIP, Bond_ticker = [],
     Bond_coupon = 0, Bond_maturityDate = []\<rparr>"

definition mkBond :: "string \<Rightarrow> BondIdType \<Rightarrow> string \<Rightarrow> rat \<Rightarrow> string \<Rightarrow> Bond" where
  "mkBond p t k c m = \<lparr>Bond_productId = p, Bond_bondIdType = t, Bond_ticker = k,
     Bond_coupon = c, Bond_maturityDate = m\<rparr>"

text \<open>
  \<^verbatim>\<open>GetBond\<close>: a default bond, overwritten by the first (and only) line whose CUSIP
  matches. The six tests are independent \<^verbatim>\<open>if\<close>s, applied in the source's order.
\<close>

definition GetBond :: "string \<Rightarrow> Bond" where
  "GetBond cusip =
    (let b0 = Bond_default;
         b1 = (if cusip = ''9128283H1'' then mkBond ''9128283H1'' CUSIP ''US2Y'' (1750 / 100000) ''2019/11/30'' else b0);
         b2 = (if cusip = ''9128283L2'' then mkBond ''9128283L2'' CUSIP ''US3Y'' (1875 / 100000) ''2020/12/15'' else b1);
         b3 = (if cusip = ''912828M80'' then mkBond ''912828M80'' CUSIP ''US5Y'' (2000 / 100000) ''2022/11/30'' else b2);
         b4 = (if cusip = ''9128283J7'' then mkBond ''9128283J7'' CUSIP ''US7Y'' (2125 / 100000) ''2024/11/30'' else b3);
         b5 = (if cusip = ''9128283F5'' then mkBond ''9128283F5'' CUSIP ''US10Y'' (2250 / 100000) ''2027/12/15'' else b4);
         b6 = (if cusip = ''912810RZ3'' then mkBond ''912810RZ3'' CUSIP ''US30Y'' (2750 / 100000) ''2047/12/15'' else b5)
     in b6)"

definition known_cusips :: "string list" where
  "known_cusips = [''9128283H1'', ''9128283L2'', ''912828M80'', ''9128283J7'', ''9128283F5'', ''912810RZ3'']"

section \<open>Market data orders (marketdataservice.hpp)\<close>

datatype PricingSide = BID | OFFER

record Order =
  Order_price :: rat
  Order_quantity :: "64 word"
  Order_side :: PricingSide

definition mkOrder :: "rat \<Rightarrow> 64 word \<Rightarrow> PricingSide \<Rightarrow> Order" where
  "mkOrder p q sd = \<lparr>Order_price = p, Order_quantity = q, Order_side = sd\<rparr>"

section \<open>Execution service (executionservice.hpp)\<close>

datatype OrderType = FOK | IOC | MARKET | LIMIT | STOP

record ExecutionOrder =
  EO_product :: Bond
  EO_side :: PricingSide
  EO_orderId :: string
  EO_orderType :: OrderType
  EO_price :: rat
  EO_visibleQuantity :: rat
  EO_hiddenQuantity :: rat
  EO_parentOrderId :: string
  EO_isChildOrder :: bool

text \<open>
  The value of \<^verbatim>\<open>executionOrders[_key]\<close> for a key that is not stored: \<^verbatim>\<open>operator[]\<close>
  value-initialises the order (numbers zero, enumerations their first member, strings empty).
\<close>

definition ExecutionOrder_default :: ExecutionOrder where
  "ExecutionOrder_default = \<lparr>EO_product = Bond_default, EO_side = BID, EO_orderId = [],
     EO_orderType = FOK, EO_price = 0, EO_visibleQuantity = 0, EO_hiddenQuantity = 0,
     EO_parentOrderId = [], EO_isChildOrder = False\<rparr>"

record ExecutionService =
  executionOrders :: "string \<rightharpoonup> ExecutionOrder"
  ES_listeners :: "nat list"

definition ExecutionService_init :: ExecutionService where
  "ExecutionService_init = \<lparr>executionOrders = Map.empty, ES_listeners = []\<rparr>"

definition ExecutionService_GetData ::
  "ExecutionService \<Rightarrow> string \<Rightarrow> ExecutionService \<times> ExecutionOrder" where
  "ExecutionService_GetData s k =
    (case executionOrders s k of
       Some d \<Rightarrow> (s, d)
     | None \<Rightarrow> (s\<lparr>executionOrders := (executionOrders s)(k \<mapsto> ExecutionOrder_default)\<rparr>,
                ExecutionOrder_default))"

definition ExecutionService_OnMessage ::
  "ExecutionService \<Rightarrow> ExecutionOrder \<Rightarrow> ExecutionService \<times> ExecutionOrder event list" where
  "ExecutionService_OnMessage s d =
    (s\<lparr>executionOrders := (executionOrders s)(Bond_productId (EO_product d) \<mapsto> d)\<rparr>, [])"

definition ExecutionService_AddListener :: "ExecutionService \<Rightarrow> nat \<Rightarrow> ExecutionService" where
  "ExecutionService_AddListener s l = s\<lparr>ES_listeners := ES_listeners s @ [l]\<rparr>"

definition ExecutionService_ExecuteOrder ::
  "ExecutionService \<Rightarrow> ExecutionOrder \<Rightarrow> ExecutionService \<times> ExecutionOrder event list" where
  "ExecutionService_ExecuteOrder s d =
    (let productId = Bond_productId (EO_product d);
         s' = s\<lparr>executionOrders := (executionOrders s)(productId \<mapsto> d)\<rparr>
     in (s', dispatch (ES_listeners s') d))"

text \<open>
  The member functions of the service that a client can call, and the callbacks each call
  makes. \<^verbatim>\<open>GetListeners\<close> and \<^verbatim>\<open>GetListener\<close> only read.
\<close>

datatype ExecutionService_call =
    Call_GetData string
  | Call_OnMessage ExecutionOrder
  | Call_AddListener nat
  | Call_GetListeners
  | Call_GetListener
  | Call_ExecuteOrder ExecutionOrder

fun ExecutionService_do ::
  "ExecutionService \<Rightarrow> ExecutionService_call \<Rightarrow> ExecutionService \<times> ExecutionOrder event list" where
  "ExecutionService_do s (Call_GetData k) = (fst (ExecutionService_GetData s k), [])"
| "ExecutionService_do s (Call_OnMessage d) = ExecutionService_OnMessage s d"
| "ExecutionService_do s (Call_AddListener l) = (ExecutionService_AddListener s l, [])"
| "ExecutionService_do s Call_GetListeners = (s, [])"
| "ExecutionService_do s Call_GetListener = (s, [])"
| "ExecutionService_do s (Call_ExecuteOrder d) = ExecutionService_ExecuteOrder s d"

text \<open>
  \<^verbatim>\<open>ExecutionToAlgoExecutionListener::ProcessAdd\<close>: the listener through which the
  execution service hears of a cross. It calls \<^verbatim>\<open>OnMessage\<close> and then
  \<^verbatim>\<open>ExecuteOrder\<close> on the same order.
\<close>

definition ExecutionToAlgoExecutionListener_ProcessAdd ::
  "ExecutionService \<Rightarrow> ExecutionOrder \<Rightarrow> ExecutionService \<times> ExecutionOrder event list" where
  "ExecutionToAlgoExecutionListener_ProcessAdd s executionOrder =
    (let (s1, ev1) = ExecutionService_OnMessage s executionOrder;
         (s2, ev2) = ExecutionService_ExecuteOrder s1 executionOrder
     in (s2, ev1 @ ev2))"

section \<open>Order books and the top of the book (marketdataservice.hpp)\<close>

record OrderBook =
  OB_product :: Bond
  OB_bidStack :: "Order list"
  OB_offerStack :: "Order list"

text \<open>
  \<^verbatim>\<open>BidOffer\<close>. The two orders start as \<^verbatim>\<open>Order _bidOrder;\<close>, whose members are
  not initialised: \<open>None\<close> is an order that no iteration of the scan has assigned.
\<close>

record BidOffer =
  BO_bidOrder :: "Order option"
  BO_offerOrder :: "Order option"

definition INT_MIN :: rat where
  "INT_MIN = - 2147483648"

definition INT_MAX :: rat where
  "INT_MAX = 2147483647"

text \<open>The two loops of \<^verbatim>\<open>OrderBook::GetBidOffer\<close>, on the pair of locals each one updates.\<close>

fun bid_scan :: "rat \<times> Order option \<Rightarrow> Order list \<Rightarrow> rat \<times> Order option" where
  "bid_scan (bidPrice, bidOrder) [] = (bidPrice, bidOrder)"
| "bid_scan (bidPrice, bidOrder) (b # bs) =
     (let price = Order_price b
      in if price > bidPrice then bid_scan (price, Some b) bs
         else bid_scan (bidPrice, bidOrder) bs)"

fun offer_scan :: "rat \<times> Order option \<Rightarrow> Order list \<Rightarrow> rat \<times> Order option" where
  "offer_scan (offerPrice, offerOrder) [] = (offerPrice, offerOrder)"
| "offer_scan (offerPrice, offerOrder) (o1 # os) =
     (let price = Order_price o1
      in if price < offerPrice then offer_scan (price, Some o1) os
         else offer_scan (offerPrice, offerOrder) os)"

definition OrderBook_GetBidOffer :: "OrderBook \<Rightarrow> BidOffer" where
  "OrderBook_GetBidOffer book =
    \<lparr>BO_bidOrder = snd (bid_scan (INT_MIN, None) (OB_bidStack book)),
     BO_offerOrder = snd (offer_scan (INT_MAX, None) (OB_offerStack book))\<rparr>"

section \<open>Algo execution service (executionservice.hpp)\<close>

text \<open>
  \<^verbatim>\<open>AlgoExecution\<close> owns one \<^verbatim>\<open>ExecutionOrder\<close>, built by its constructor from
  \<^verbatim>\<open>long\<close> quantities that the order stores as \<^verbatim>\<open>double\<close>.
\<close>

record AlgoExecution =
  AE_executionOrder :: ExecutionOrder

definition mkAlgoExecution ::
  "Bond \<Rightarrow> PricingSide \<Rightarrow> string \<Rightarrow> OrderType \<Rightarrow> rat \<Rightarrow> 64 word \<Rightarrow> 64 word \<Rightarrow> string \<Rightarrow> bool
     \<Rightarrow> AlgoExecution" where
  "mkAlgoExecution product sd orderId orderType price visibleQuantity hiddenQuantity
       parentOrderId isChildOrder =
    \<lparr>AE_executionOrder =
       \<lparr>EO_product = product, EO_side = sd, EO_orderId = orderId, EO_orderType = orderType,
        EO_price = price, EO_visibleQuantity = of_int (sint visibleQuantity),
        EO_hiddenQuantity = of_int (sint hiddenQuantity),
        EO_parentOrderId = parentOrderId, EO_isChildOrder = isChildOrder\<rparr>\<rparr>"

text \<open>
  \<^verbatim>\<open>count\<close> is a \<^verbatim>\<open>long\<close> that starts at 0 and is only ever incremented, by one for
  each cross; it is an \<open>int\<close> here (wrapping it would take \<open>2^63\<close> crosses).
\<close>

record AlgoExecutionService =
  algoExecutions :: "string \<rightharpoonup> AlgoExecution"
  AES_listeners :: "nat list"
  AES_spread :: rat
  AES_count :: int

definition AlgoExecutionService_init :: AlgoExecutionService where
  "AlgoExecutionService_init =
    \<lparr>algoExecutions = Map.empty, AES_listeners = [], AES_spread = 1 / 128, AES_count = 0\<rparr>"

definition AlgoExecutionService_OnMessage ::
  "AlgoExecutionService \<Rightarrow> AlgoExecution \<Rightarrow> AlgoExecutionService" where
  "AlgoExecutionService_OnMessage s d =
    s\<lparr>algoExecutions :=
        (algoExecutions s)(Bond_productId (EO_product (AE_executionOrder d)) \<mapsto> d)\<rparr>"

definition AlgoExecutionService_AddListener ::
  "AlgoExecutionService \<Rightarrow> nat \<Rightarrow> AlgoExecutionService" where
  "AlgoExecutionService_AddListener s l = s\<lparr>AES_listeners := AES_listeners s @ [l]\<rparr>"

text \<open>
  \<^verbatim>\<open>switch (count % 2)\<close>: the remainder of C++ truncates towards zero (\<open>smod\<close>), so a
  negative odd counter matches neither case and leaves the three locals unassigned.
\<close>

definition cross_switch ::
  "int \<Rightarrow> Order \<Rightarrow> Order \<Rightarrow> (rat \<times> 64 word \<times> PricingSide) option" where
  "cross_switch cnt bidOrder offerOrder =
    (if cnt smod 2 = 0 then Some (Order_price bidOrder, Order_quantity bidOrder, BID)
     else if cnt smod 2 = 1 then Some (Order_price offerOrder, Order_quantity offerOrder, OFFER)
     else None)"

text \<open>
  \<^verbatim>\<open>AlgoExecuteOrder\<close>. The order id comes from \<^verbatim>\<open>GenerateId()\<close>, which reads the
  clock: it is an argument here.
\<close>

definition AlgoExecutionService_AlgoExecuteOrder ::
  "AlgoExecutionService \<Rightarrow> string \<Rightarrow> OrderBook
     \<Rightarrow> error + (AlgoExecutionService \<times> AlgoExecution event list)" where
  "AlgoExecutionService_AlgoExecuteOrder s orderId orderBook =
    (let product = OB_product orderBook;
         productId = Bond_productId product;
         bidOffer = OrderBook_GetBidOffer orderBook
     in case (BO_bidOrder bidOffer, BO_offerOrder bidOffer) of
          (Some bidOrder, Some offerOrder) \<Rightarrow>
            if Order_price offerOrder - Order_price bidOrder \<le> AES_spread s
            then (case cross_switch (AES_count s) bidOrder offerOrder of
                    None \<Rightarrow> Inl UninitialisedRead
                  | Some (price, quantity, sd) \<Rightarrow>
                      let algoExecution =
                            mkAlgoExecution product sd orderId MARKET price quantity 0 [] False;
                          s' = s\<lparr>AES_count := AES_count s + 1,
                                 algoExecutions := (algoExecutions s)(productId \<mapsto> algoExecution)\<rparr>
                      in Inr (s', dispatch (AES_listeners s') algoExecution))
            else Inr (s, [])
        | _ \<Rightarrow> Inl UninitialisedRead)"

text \<open>
  The states of the service: the constructor's, and what the member functions that change
  the object make of a state. \<^verbatim>\<open>GetData\<close> changes the map only (\<^verbatim>\<open>operator[]\<close> adds an
  entry for a key that is not stored): any change of the map alone is allowed for.
\<close>

inductive AES_reachable :: "AlgoExecutionService \<Rightarrow> bool" where
  AES_ctor: "AES_reachable AlgoExecutionService_init"
| AES_OnMessage: "AES_reachable s \<Longrightarrow> AES_reachable (AlgoExecutionService_OnMessage s d)"
| AES_GetData: "AES_reachable s \<Longrightarrow> AES_reachable (s\<lparr>algoExecutions := m\<rparr>)"
| AES_AddListener: "AES_reachable s \<Longrightarrow> AES_reachable (AlgoExecutionService_AddListener s l)"
| AES_AlgoExecuteOrder:
    "AES_reachable s \<Longrightarrow> AlgoExecutionService_AlgoExecuteOrder s orderId book = Inr (s', ev)
       \<Longrightarrow> AES_reachable s'"

text \<open>A stream of order book updates, each with the id generated for it.\<close>

fun AlgoExecutionService_feed ::
  "AlgoExecutionService \<Rightarrow> (string \<times> OrderBook) list
     \<Rightarrow> error + (AlgoExecutionService \<times> AlgoExecution event list)" where
  "AlgoExecutionService_feed s [] = Inr (s, [])"
| "AlgoExecutionService_feed s ((orderId, book) # rest) =
     (case AlgoExecutionService_AlgoExecuteOrder s orderId book of
        Inl e \<Rightarrow> Inl e
      | Inr (s', ev) \<Rightarrow>
          (case AlgoExecutionService_feed s' rest of
             Inl e \<Rightarrow> Inl e
           | Inr (s'', ev') \<Rightarrow> Inr (s'', ev @ ev')))"

definition parity_side :: "int \<Rightarrow> PricingSide" where
  "parity_side c = (if even c then BID else OFFER)"

definition event_side :: "AlgoExecution event \<Rightarrow> PricingSide" where
  "event_side e = (case e of ProcessAdd l d \<Rightarrow> EO_side (AE_executionOrder d))"

text \<open>An order book for US2Y with best bid 99-31+ and best offer 1/256 above it.\<close>

definition tight_book :: OrderBook where
  "tight_book = \<lparr>OB_product = GetBond ''9128283H1'',
     OB_bidStack = [mkOrder (25596 / 256) 1000000 BID, mkOrder (25590 / 256) 2000000 BID],
     OB_offerStack = [mkOrder (25600 / 256) 3000000 OFFER, mkOrder (25597 / 256) 4000000 OFFER]\<rparr>"

text \<open>
  The service with one listener after its first cross, which was at the bid of
  \<open>tight_book\<close>: the counter is 1.
\<close>

definition first_cross :: AlgoExecution where
  "first_cross = \<lparr>AE_executionOrder =
     \<lparr>EO_product = GetBond ''9128283H1'', EO_side = BID, EO_orderId = ''ID0'',
      EO_orderType = MARKET, EO_price = 25596 / 256, EO_visibleQuantity = 1000000,
      EO_hiddenQuantity = 0, EO_parentOrderId = [], EO_isChildOrder = False\<rparr>\<rparr>"

definition service_after_first_cross :: AlgoExecutionService where
  "service_after_first_cross =
     \<lparr>algoExecutions = [''9128283H1'' \<mapsto> first_cross], AES_listeners = [7],
      AES_spread = 1 / 128, AES_count = 1\<rparr>"

text \<open>
  An order book with one bid and one offer, 1/256 apart, whose offer price is not below
  \<^verbatim>\<open>INT_MAX\<close>.
\<close>

definition sentinel_book :: OrderBook where
  "sentinel_book = \<lparr>OB_product = GetBond ''9128283H1'',
     OB_bidStack = [mkOrder (3000000000 - 1 / 256) 1000000 BID],
     OB_offerStack = [mkOrder 3000000000 2000000 OFFER]\<rparr>"

section \<open>Inquiry service (inquiryservice.hpp)\<close>

text \<open>
  Modelled from the spec: the enumeration \<^verbatim>\<open>Side\<close> of tradebookingservice.hpp, which is not
  among the sources (the spec: side \<open>\<in>\<close> {BUY, SELL}).
\<close>

datatype Side = BUY | SELL

datatype InquiryState = RECEIVED | QUOTED | DONE | REJECTED | CUSTOMER_REJECTED

record Inquiry =
  Inquiry_inquiryId :: string
  Inquiry_product :: Bond
  Inquiry_side :: Side
  Inquiry_quantity :: "64 word"
  Inquiry_price :: rat
  Inquiry_state :: InquiryState

definition Inquiry_SetState :: "Inquiry \<Rightarrow> InquiryState \<Rightarrow> Inquiry" where
  "Inquiry_SetState d st = d\<lparr>Inquiry_state := st\<rparr>"


text \<open>The value of \<^verbatim>\<open>inquiries[_key]\<close> for a key that is not stored (value-initialised).\<close>

definition Inquiry_default :: Inquiry where
  "Inquiry_default = \<lparr>Inquiry_inquiryId = [], Inquiry_product = Bond_default,
     Inquiry_side = BUY, Inquiry_quantity = 0, Inquiry_price = 0, Inquiry_state = RECEIVED\<rparr>"

record InquiryService =
  inquiries :: "string \<rightharpoonup> Inquiry"
  IS_listeners :: "nat list"

definition InquiryService_init :: InquiryService where
  "InquiryService_init = \<lparr>inquiries = Map.empty, IS_listeners = []\<rparr>"

definition InquiryService_AddListener :: "InquiryService \<Rightarrow> nat \<Rightarrow> InquiryService" where
  "InquiryService_AddListener s l = s\<lparr>IS_listeners := IS_listeners s @ [l]\<rparr>"

text \<open>
  \<^verbatim>\<open>InquiryService::OnMessage\<close>, \<^verbatim>\<open>InquiryConnector::Publish\<close> and
  \<^verbatim>\<open>InquiryConnector::Subscribe(Inquiry<T>&)\<close> call each other. \<^verbatim>\<open>_data\<close> is passed by
  reference and the callees change its state, so each function returns the service, the
  inquiry as the caller sees it afterwards, and the callbacks made.
\<close>

function InquiryService_OnMessage ::
    "InquiryService \<Rightarrow> Inquiry \<Rightarrow> InquiryService \<times> Inquiry \<times> Inquiry event list"
  and InquiryConnector_Publish ::
    "InquiryService \<Rightarrow> Inquiry \<Rightarrow> InquiryService \<times> Inquiry \<times> Inquiry event list"
  and InquiryConnector_Subscribe ::
    "InquiryService \<Rightarrow> Inquiry \<Rightarrow> InquiryService \<times> Inquiry \<times> Inquiry event list"
where
  "InquiryService_OnMessage s d =
    (case Inquiry_state d of
       RECEIVED \<Rightarrow>
         InquiryConnector_Publish (s\<lparr>inquiries := (inquiries s)(Inquiry_inquiryId d \<mapsto> d)\<rparr>) d
     | QUOTED \<Rightarrow>
         (let d' = Inquiry_SetState d DONE;
              s' = s\<lparr>inquiries := (inquiries s)(Inquiry_inquiryId d' \<mapsto> d')\<rparr>
          in (s', d', dispatch (IS_listeners s') d'))
     | DONE \<Rightarrow> (s, d, [])
     | REJECTED \<Rightarrow> (s, d, [])
     | CUSTOMER_REJECTED \<Rightarrow> (s, d, []))"
| "InquiryConnector_Publish s d =
    (if Inquiry_state d = RECEIVED
     then InquiryConnector_Subscribe s (Inquiry_SetState d QUOTED)
     else (s, d, []))"
| "InquiryConnector_Subscribe s d = InquiryService_OnMessage s d"
  by pat_completeness auto
termination
  by (relation "measure (\<lambda>x. case x of
          Inl (s, d) \<Rightarrow> (if Inquiry_state d = RECEIVED then 3 else 0)
        | Inr (Inl (s, d)) \<Rightarrow> 2
        | Inr (Inr (s, d)) \<Rightarrow> (if Inquiry_state d = RECEIVED then 4 else 1))")
     (auto simp: Inquiry_SetState_def)


definition InquiryService_RejectInquiry :: "InquiryService \<Rightarrow> string \<Rightarrow> InquiryService" where
  "InquiryService_RejectInquiry s inquiryId =
    (let inquiry0 = (case inquiries s inquiryId of Some i \<Rightarrow> i | None \<Rightarrow> Inquiry_default);
         inquiry = Inquiry_SetState inquiry0 REJECTED
     in s\<lparr>inquiries := (inquiries s)(inquiryId \<mapsto> inquiry)\<rparr>)"

definition event_listener :: "'v event \<Rightarrow> nat" where
  "event_listener e = (case e of ProcessAdd l d \<Rightarrow> l)"

text \<open>The inquiry of the spec's scenario and a service with two listeners.\<close>

definition inquiry_I1 :: Inquiry where
  "inquiry_I1 = \<lparr>Inquiry_inquiryId = ''I1'', Inquiry_product = GetBond ''912828M80'',
     Inquiry_side = BUY, Inquiry_quantity = 1000000, Inquiry_price = 100,
     Inquiry_state = RECEIVED\<rparr>"

definition inquiry_service_2 :: InquiryService where
  "inquiry_service_2 = \<lparr>inquiries = Map.empty, IS_listeners = [7, 8]\<rparr>"

section \<open>Market data service (marketdataservice.hpp)\<close>

definition OrderBook_default :: OrderBook where
  "OrderBook_default = \<lparr>OB_product = Bond_default, OB_bidStack = [], OB_offerStack = []\<rparr>"

record MarketDataService =
  orderBooks :: "string \<rightharpoonup> OrderBook"
  MDS_listeners :: "nat list"
  bookDepth :: int

definition MarketDataService_init :: MarketDataService where
  "MarketDataService_init = \<lparr>orderBooks = Map.empty, MDS_listeners = [], bookDepth = 5\<rparr>"

definition MarketDataService_AddListener :: "MarketDataService \<Rightarrow> nat \<Rightarrow> MarketDataService" where
  "MarketDataService_AddListener s l = s\<lparr>MDS_listeners := MDS_listeners s @ [l]\<rparr>"

definition MarketDataService_OnMessage ::
  "MarketDataService \<Rightarrow> OrderBook \<Rightarrow> MarketDataService \<times> OrderBook event list" where
  "MarketDataService_OnMessage s d =
    (let s' = s\<lparr>orderBooks := (orderBooks s)(Bond_productId (OB_product d) \<mapsto> d)\<rparr>
     in (s', dispatch (MDS_listeners s') d))"

text \<open>
  \<^verbatim>\<open>unordered_map<double,long>\<close> as the list of its entries, in the order in which the keys
  were first inserted. \<^verbatim>\<open>table[_price] += _quantity\<close> adds to the entry of the key, which
  \<^verbatim>\<open>operator[]\<close> creates with value 0 when the key is new.
\<close>

type_synonym hash_table = "(rat \<times> 64 word) list"

fun table_add :: "rat \<Rightarrow> 64 word \<Rightarrow> hash_table \<Rightarrow> hash_table" where
  "table_add k q [] = [(k, 0 + q)]"
| "table_add k q ((k', v) # t) =
     (if k' = k then (k', v + q) # t else (k', v) # table_add k q t)"

text \<open>\<^verbatim>\<open>for (auto& b: _bidStackFrom) _bidHashTable[b.GetPrice()] += b.GetQuantity();\<close>\<close>

fun table_fill :: "hash_table \<Rightarrow> Order list \<Rightarrow> hash_table" where
  "table_fill t [] = t"
| "table_fill t (b # bs) = table_fill (table_add (Order_price b) (Order_quantity b) t) bs"

text \<open>
  \<^verbatim>\<open>for (auto& b: _bidHashTable) _bidStackTo.push_back(Order(b.first, b.second, BID));\<close>
  The order in which the loop visits the entries of an \<^verbatim>\<open>unordered_map\<close> is not
  specified: it is the parameter \<open>iter\<close>, a function from the entries to the sequence in
  which they are visited. Every traversal visits each entry once (\<open>traversal\<close>).
\<close>

definition stack_of_table :: "(hash_table \<Rightarrow> hash_table) \<Rightarrow> hash_table \<Rightarrow> PricingSide \<Rightarrow> Order list" where
  "stack_of_table iter t sd = map (\<lambda>(p, q). mkOrder p q sd) (iter t)"

definition traversal :: "(hash_table \<Rightarrow> hash_table) \<Rightarrow> bool" where
  "traversal iter = (\<forall>t. mset (iter t) = mset t)"

text \<open>
  \<^verbatim>\<open>AggregateDepth\<close>, lines 263 to 293: the order book that the return statement
  constructs from the stored book, a temporary object of the function.
\<close>

definition AggregateDepth_temporary :: "(hash_table \<Rightarrow> hash_table) \<Rightarrow> OrderBook \<Rightarrow> OrderBook" where
  "AggregateDepth_temporary iter stored =
    (let product = OB_product stored;
         bidStackFrom = OB_bidStack stored;
         bidHashTable = table_fill [] bidStackFrom;
         bidStackTo = stack_of_table iter bidHashTable BID;
         offerStackFrom = OB_offerStack stored;
         offerHashTable = table_fill [] offerStackFrom;
         offerStackTo = stack_of_table iter offerHashTable OFFER
     in \<lparr>OB_product = product, OB_bidStack = bidStackTo, OB_offerStack = offerStackTo\<rparr>)"

text \<open>
  \<^verbatim>\<open>AggregateDepth\<close> as a whole. \<^verbatim>\<open>orderBooks[productId]\<close> creates an empty book for a
  product that is not stored. The function is declared to return
  \<^verbatim>\<open>const OrderBook<T>&\<close> and returns the temporary: the temporary is destroyed when the
  function returns, so what the caller receives is a reference to no object, and no order
  book. (The source also binds \<^verbatim>\<open>T&\<close> and \<^verbatim>\<open>vector<Order>&\<close> to the \<^verbatim>\<open>const\<close>
  getters of the stored book, which a compiler refuses once the template is instantiated.)
\<close>

definition MarketDataService_AggregateDepth ::
  "(hash_table \<Rightarrow> hash_table) \<Rightarrow> MarketDataService \<Rightarrow> string
     \<Rightarrow> MarketDataService \<times> (error + OrderBook)" where
  "MarketDataService_AggregateDepth iter s productId =
    (let stored = (case orderBooks s productId of Some b \<Rightarrow> b | None \<Rightarrow> OrderBook_default);
         s' = s\<lparr>orderBooks := (orderBooks s)(productId \<mapsto> stored)\<rparr>;
         temporary = AggregateDepth_temporary iter stored
     in (s', Inl DanglingReference))"

text \<open>The quantities of the orders of a stack at one price, summed.\<close>

definition quantity_at :: "rat \<Rightarrow> Order list \<Rightarrow> 64 word" where
  "quantity_at p xs = sum_list (map Order_quantity (filter (\<lambda>x. Order_price x = p) xs))"

text \<open>The value a table holds for a key, 0 for a key that it does not hold.\<close>

definition tval :: "hash_table \<Rightarrow> rat \<Rightarrow> 64 word" where
  "tval t k = (case map_of t k of Some v \<Rightarrow> v | None \<Rightarrow> 0)"

text \<open>The bids of the spec's scenario, with two offers at one price.\<close>

definition scenario_book :: OrderBook where
  "scenario_book = \<lparr>OB_product = GetBond ''9128283F5'',
     OB_bidStack = [mkOrder 100 10 BID, mkOrder 100 15 BID, mkOrder (199 / 2) 20 BID],
     OB_offerStack = [mkOrder 101 5 OFFER, mkOrder 101 7 OFFER]\<rparr>"

definition scenario_service :: MarketDataService where
  "scenario_service = \<lparr>orderBooks = [''9128283F5'' \<mapsto> scenario_book], MDS_listeners = [],
     bookDepth = 5\<rparr>"

section \<open>Strings and numbers (the library functions that functions.hpp calls)\<close>

text \<open>Decimal digits.\<close>

definition digit_char :: "nat \<Rightarrow> char" where
  "digit_char n = ''0123456789'' ! (n mod 10)"

definition is_digit :: "char \<Rightarrow> bool" where
  "is_digit c = (c \<in> set ''0123456789'')"

definition digit_val :: "char \<Rightarrow> nat" where
  "digit_val c = length (takeWhile (\<lambda>d. d \<noteq> c) ''0123456789'')"

fun digits_val :: "nat \<Rightarrow> string \<Rightarrow> nat" where
  "digits_val acc [] = acc"
| "digits_val acc (c # cs) = digits_val (acc * 10 + digit_val c) cs"

text \<open>\<^verbatim>\<open>std::to_string(int)\<close>: the decimal digits, after a minus sign for a negative number.\<close>

fun digits_of :: "nat \<Rightarrow> string" where
  "digits_of n = (if n < 10 then [digit_char n] else digits_of (n div 10) @ [digit_char (n mod 10)])"

declare digits_of.simps [simp del]

definition to_string :: "int \<Rightarrow> string" where
  "to_string i = (if i < 0 then CHR ''-'' # digits_of (nat (- i)) else digits_of (nat i))"

text \<open>
  \<^verbatim>\<open>std::stod\<close> on the strings that the model covers: an optional sign, one or more
  decimal digits and an optional fraction (a point and digits), with nothing before or
  after. The empty string has no conversion (\<^verbatim>\<open>std::invalid_argument\<close>). Every other
  string (white space, exponents, hexadecimal, \<^verbatim>\<open>inf\<close>, \<^verbatim>\<open>nan\<close>, trailing characters,
  a fraction without integer digits) is \<open>Unmodelled\<close>: the model says nothing about it.
\<close>

definition unsigned_decimal :: "string \<Rightarrow> error + rat" where
  "unsigned_decimal s =
    (let ip = takeWhile is_digit s; rest = dropWhile is_digit s
     in if ip = [] then Inl Unmodelled
        else case rest of
               [] \<Rightarrow> Inr (of_nat (digits_val 0 ip))
             | c # fr \<Rightarrow>
                 if c = CHR ''.'' \<and> list_all is_digit fr
                 then Inr (of_nat (digits_val 0 ip) + of_nat (digits_val 0 fr) / 10 ^ length fr)
                 else Inl Unmodelled)"

definition stod :: "string \<Rightarrow> error + rat" where
  "stod s =
    (case s of
       [] \<Rightarrow> Inl InvalidArgument
     | c # r \<Rightarrow>
         if c = CHR ''-'' then (case unsigned_decimal r of Inl e \<Rightarrow> Inl e | Inr v \<Rightarrow> Inr (- v))
         else if c = CHR ''+'' then unsigned_decimal r
         else unsigned_decimal s)"

text \<open>
  \<^verbatim>\<open>std::stol\<close> on an optional sign and decimal digits: the number when it is a
  \<^verbatim>\<open>long\<close>, \<^verbatim>\<open>std::out_of_range\<close> when it is not. Other non-empty strings are
  \<open>Unmodelled\<close>.
\<close>

definition long_of_int :: "int \<Rightarrow> error + 64 word" where
  "long_of_int i = (if - (2 ^ 63) \<le> i \<and> i < 2 ^ 63 then Inr (word_of_int i) else Inl OutOfRange)"

definition unsigned_digits :: "string \<Rightarrow> error + int" where
  "unsigned_digits s =
    (if s \<noteq> [] \<and> list_all is_digit s then Inr (int (digits_val 0 s)) else Inl Unmodelled)"

definition stol :: "string \<Rightarrow> error + 64 word" where
  "stol s =
    (case s of
       [] \<Rightarrow> Inl InvalidArgument
     | c # r \<Rightarrow>
         (case (if c = CHR ''-'' then (case unsigned_digits r of Inl e \<Rightarrow> Inl e | Inr v \<Rightarrow> Inr (- v))
                else if c = CHR ''+'' then unsigned_digits r
                else unsigned_digits s) of
            Inl e \<Rightarrow> Inl e
          | Inr i \<Rightarrow> long_of_int i))"

text \<open>
  The conversion of a \<^verbatim>\<open>double\<close> to \<^verbatim>\<open>int\<close>: the value is truncated towards zero, and
  the behaviour is undefined when the truncated value is not an \<^verbatim>\<open>int\<close> (32 bits).
\<close>

definition double_to_int :: "rat \<Rightarrow> error + int" where
  "double_to_int x =
    (let t = (if 0 \<le> x then \<lfloor>x\<rfloor> else \<lceil>x\<rceil>)
     in if - (2 ^ 31) \<le> t \<and> t < 2 ^ 31 then Inr t else Inl IntConversion)"

section \<open>Price conversion (functions.hpp)\<close>

text \<open>
  \<^verbatim>\<open>ConvertPrice(string)\<close>. The loop splits the string on the state
  \<open>(count, _stringPrice100, _stringPrice32, _stringPrice8)\<close>.
\<close>

fun split_price :: "int \<times> string \<times> string \<times> string \<Rightarrow> string \<Rightarrow> int \<times> string \<times> string \<times> string" where
  "split_price st [] = st"
| "split_price (cnt, s100, s32, s8) (c # cs) =
     (if c = CHR ''-'' then split_price (cnt + 1, s100, s32, s8) cs
      else if cnt = 0 then split_price (cnt, s100 @ [c], s32, s8) cs
      else if cnt = 1 \<or> cnt = 2 then split_price (cnt + 1, s100, s32 @ [c], s8) cs
      else if cnt = 3
        then split_price (cnt, s100, s32, s8 @ [if c = CHR ''+'' then CHR ''4'' else c]) cs
      else split_price (cnt, s100, s32, s8) cs)"

definition ConvertPrice_string :: "string \<Rightarrow> error + rat" where
  "ConvertPrice_string stringPrice =
    (case split_price (0, [], [], []) stringPrice of
       (cnt, stringPrice100, stringPrice32, stringPrice8) \<Rightarrow>
         (case stod stringPrice100 of
            Inl e \<Rightarrow> Inl e
          | Inr doublePrice100 \<Rightarrow>
              (case stod stringPrice32 of
                 Inl e \<Rightarrow> Inl e
               | Inr doublePrice32 \<Rightarrow>
                   (case stod stringPrice8 of
                      Inl e \<Rightarrow> Inl e
                    | Inr doublePrice8 \<Rightarrow>
                        Inr (doublePrice100 + doublePrice32 * 1 / 32 + doublePrice8 * 1 / 256)))))"

text \<open>\<^verbatim>\<open>ConvertPrice(double)\<close>. \<^verbatim>\<open>%\<close> is the truncating remainder \<open>smod\<close>.\<close>

definition ConvertPrice_double :: "rat \<Rightarrow> error + string" where
  "ConvertPrice_double doublePrice =
    (case double_to_int (of_int \<lfloor>doublePrice\<rfloor>) of
       Inl e \<Rightarrow> Inl e
     | Inr doublePrice100 \<Rightarrow>
         (case double_to_int (of_int \<lfloor>(doublePrice - of_int doublePrice100) * 256\<rfloor>) of
            Inl e \<Rightarrow> Inl e
          | Inr doublePrice256 \<Rightarrow>
              (case double_to_int (of_int \<lfloor>(of_int doublePrice256 :: rat) / 8\<rfloor>) of
                 Inl e \<Rightarrow> Inl e
               | Inr doublePrice32 \<Rightarrow>
                   (let doublePrice8 = doublePrice256 smod 8;
                        stringPrice100 = to_string doublePrice100;
                        stringPrice32 = (if doublePrice32 < 10 then ''0'' @ to_string doublePrice32
                                         else to_string doublePrice32);
                        stringPrice8 = (if doublePrice8 = 4 then ''+'' else to_string doublePrice8)
                    in Inr (stringPrice100 @ ''-'' @ stringPrice32 @ stringPrice8)))))"

text \<open>A price written out and read back.\<close>

definition price_round_trip :: "rat \<Rightarrow> error + rat" where
  "price_round_trip p =
    (case ConvertPrice_double p of Inl e \<Rightarrow> Inl e | Inr s \<Rightarrow> ConvertPrice_string s)"

text \<open>
  The 32nds field and the eighths field that \<^verbatim>\<open>ConvertPrice(double)\<close> writes: two digits,
  and one digit or \<open>+\<close> for 4.
\<close>

definition str32 :: "int \<Rightarrow> string" where
  "str32 a = (if a < 10 then ''0'' @ to_string a else to_string a)"

definition str8 :: "int \<Rightarrow> string" where
  "str8 c = (if c = 4 then ''+'' else to_string c)"

section \<open>Reading a file (the loops of the connectors)\<close>

text \<open>
  A file is the list of its lines, as \<^verbatim>\<open>getline(_data, _line)\<close> yields them.
  \<^verbatim>\<open>while (getline(_lineStream, _cell, ','))\<close> cuts a line at the commas: a cell ends at a
  comma or at the end of the line, and the loop stops when nothing is left, so an empty
  cell at the very end of the line is not produced. The first argument is the cell read so
  far.
\<close>

fun split_cells :: "string \<Rightarrow> string \<Rightarrow> string list" where
  "split_cells cell [] = (if cell = [] then [] else [cell])"
| "split_cells cell (c # cs) =
     (if c = CHR '','' then cell # split_cells [] cs else split_cells (cell @ [c]) cs)"

text \<open>\<^verbatim>\<open>_cells[i]\<close>: reading past the end of the vector is an error.\<close>

definition cell_at :: "string list \<Rightarrow> nat \<Rightarrow> error + string" where
  "cell_at cells i = (if i < length cells then Inr (cells ! i) else Inl IndexOutOfRange)"

section \<open>Pricing service (pricingservice.hpp)\<close>

record Price =
  Price_product :: Bond
  Price_mid :: rat
  Price_bidOfferSpread :: rat

definition mkPrice :: "Bond \<Rightarrow> rat \<Rightarrow> rat \<Rightarrow> Price" where
  "mkPrice product mid bidOfferSpread =
    \<lparr>Price_product = product, Price_mid = mid, Price_bidOfferSpread = bidOfferSpread\<rparr>"

record PricingService =
  prices :: "string \<rightharpoonup> Price"
  PS_listeners :: "nat list"

definition PricingService_init :: PricingService where
  "PricingService_init = \<lparr>prices = Map.empty, PS_listeners = []\<rparr>"


definition PricingService_OnMessage ::
  "PricingService \<Rightarrow> Price \<Rightarrow> PricingService \<times> Price event list" where
  "PricingService_OnMessage s d =
    (let s' = s\<lparr>prices := (prices s)(Bond_productId (Price_product d) \<mapsto> d)\<rparr>
     in (s', dispatch (PS_listeners s') d))"

text \<open>The body of the loop of \<^verbatim>\<open>PricingConnector::Subscribe\<close>, for one line of the file.\<close>

definition PricingConnector_Subscribe_line ::
  "PricingService \<Rightarrow> string \<Rightarrow> error + (PricingService \<times> Price event list)" where
  "PricingConnector_Subscribe_line s line =
    (let tmps = split_cells [] line
     in case cell_at tmps 0 of
          Inl e \<Rightarrow> Inl e
        | Inr productId \<Rightarrow>
            (case cell_at tmps 1 of
               Inl e \<Rightarrow> Inl e
             | Inr cell1 \<Rightarrow>
                 (case stod cell1 of
                    Inl e \<Rightarrow> Inl e
                  | Inr bid \<Rightarrow>
                      (case cell_at tmps 2 of
                         Inl e \<Rightarrow> Inl e
                       | Inr cell2 \<Rightarrow>
                           (case stod cell2 of
                              Inl e \<Rightarrow> Inl e
                            | Inr offer \<Rightarrow>
                                (let mid = (bid + offer) / 2;
                                     spread = offer - bid;
                                     product = GetBond productId;
                                     price = mkPrice product mid spread
                                 in Inr (PricingService_OnMessage s price)))))))"

text \<open>The loop: line after line, until the end of the file or an exception.\<close>

fun PricingConnector_Subscribe ::
  "PricingService \<Rightarrow> string list \<Rightarrow> error + (PricingService \<times> Price event list)" where
  "PricingConnector_Subscribe s [] = Inr (s, [])"
| "PricingConnector_Subscribe s (line # rest) =
     (case PricingConnector_Subscribe_line s line of
        Inl e \<Rightarrow> Inl e
      | Inr (s', ev) \<Rightarrow>
          (case PricingConnector_Subscribe s' rest of
             Inl e \<Rightarrow> Inl e
           | Inr (s'', ev') \<Rightarrow> Inr (s'', ev @ ev')))"

section \<open>Market data connector (marketdataservice.hpp)\<close>

text \<open>
  The statements of the loop body of \<^verbatim>\<open>MarketDataConnector::Subscribe\<close> that read one
  line: the product id and the order of the row.
\<close>

definition MarketDataConnector_read_line :: "string \<Rightarrow> error + (string \<times> Order)" where
  "MarketDataConnector_read_line line =
    (let cells = split_cells [] line
     in case cell_at cells 0 of
          Inl e \<Rightarrow> Inl e
        | Inr productId \<Rightarrow>
            (case cell_at cells 1 of
               Inl e \<Rightarrow> Inl e
             | Inr cell1 \<Rightarrow>
                 (case ConvertPrice_string cell1 of
                    Inl e \<Rightarrow> Inl e
                  | Inr price \<Rightarrow>
                      (case cell_at cells 2 of
                         Inl e \<Rightarrow> Inl e
                       | Inr cell2 \<Rightarrow>
                           (case stol cell2 of
                              Inl e \<Rightarrow> Inl e
                            | Inr quantity \<Rightarrow>
                                (case cell_at cells 3 of
                                   Inl e \<Rightarrow> Inl e
                                 | Inr cell3 \<Rightarrow>
                                     (let sd = (if cell3 = ''BID'' then BID else OFFER)
                                      in Inr (productId, mkOrder price quantity sd))))))))"

text \<open>
  The rest of the body, on the locals \<open>(_count, _bidStack, _offerStack)\<close> and the service
  with the callbacks made so far. \<open>thread\<close> is \<^verbatim>\<open>_bookDepth * 2\<close>.
\<close>

type_synonym subscribe_state =
  "MarketDataService \<times> OrderBook event list \<times> int \<times> Order list \<times> Order list"

definition MarketDataConnector_Subscribe_line ::
  "int \<Rightarrow> subscribe_state \<Rightarrow> string \<Rightarrow> error + subscribe_state" where
  "MarketDataConnector_Subscribe_line thread st line =
    (case st of (s, ev, cnt, bidStack, offerStack) \<Rightarrow>
      (case MarketDataConnector_read_line line of
         Inl e \<Rightarrow> Inl e
       | Inr (productId, order) \<Rightarrow>
           (let bidStack' = (case Order_side order of BID \<Rightarrow> bidStack @ [order] | OFFER \<Rightarrow> bidStack);
                offerStack' = (case Order_side order of BID \<Rightarrow> offerStack | OFFER \<Rightarrow> offerStack @ [order]);
                cnt' = cnt + 1
            in if cnt' = thread
               then (let product = GetBond productId;
                         orderBook = \<lparr>OB_product = product, OB_bidStack = bidStack',
                                       OB_offerStack = offerStack'\<rparr>;
                         (s', ev') = MarketDataService_OnMessage s orderBook
                     in Inr (s', ev @ ev', 0, [], []))
               else Inr (s, ev, cnt', bidStack', offerStack'))))"

fun MarketDataConnector_loop ::
  "int \<Rightarrow> subscribe_state \<Rightarrow> string list \<Rightarrow> error + subscribe_state" where
  "MarketDataConnector_loop thread st [] = Inr st"
| "MarketDataConnector_loop thread st (line # rest) =
     (case MarketDataConnector_Subscribe_line thread st line of
        Inl e \<Rightarrow> Inl e
      | Inr st' \<Rightarrow> MarketDataConnector_loop thread st' rest)"

text \<open>
  \<^verbatim>\<open>Subscribe\<close>: the loop from empty stacks; the stacks left at the end of the file are
  dropped with the other locals.
\<close>

definition MarketDataConnector_Subscribe ::
  "MarketDataService \<Rightarrow> string list \<Rightarrow> error + (MarketDataService \<times> OrderBook event list)" where
  "MarketDataConnector_Subscribe s lines =
    (let thread = bookDepth s * 2
     in case MarketDataConnector_loop thread (s, [], 0, [], []) lines of
          Inl e \<Rightarrow> Inl e
        | Inr (s', ev, cnt, bidStack, offerStack) \<Rightarrow> Inr (s', ev))"

subsection \<open>What the connector is expected to deliver\<close>

text \<open>
  The rows of a file cut into consecutive groups of \<open>n\<close>; rows after the last full group
  belong to no group.
\<close>

function full_groups :: "nat \<Rightarrow> 'a list \<Rightarrow> 'a list list" where
  "full_groups n xs =
    (if n = 0 \<or> length xs < n then [] else take n xs # full_groups n (drop n xs))"
  by pat_completeness auto
termination
  by (relation "measure (\<lambda>(n, xs). length xs)") auto

declare full_groups.simps [simp del]

text \<open>
  The order book of a group of rows: the bids and the offers of the group in the order of
  the rows, for the product of the row that completes the group.
\<close>

definition book_of_group :: "(string \<times> Order) list \<Rightarrow> OrderBook" where
  "book_of_group g =
    \<lparr>OB_product = GetBond (fst (last g)),
     OB_bidStack = filter (\<lambda>x. Order_side x = BID) (map snd g),
     OB_offerStack = filter (\<lambda>x. Order_side x = OFFER) (map snd g)\<rparr>"

text \<open>Order books handed to \<^verbatim>\<open>MarketDataService::OnMessage\<close> one after the other.\<close>

fun deliver_all ::
  "MarketDataService \<Rightarrow> OrderBook list \<Rightarrow> MarketDataService \<times> OrderBook event list" where
  "deliver_all s [] = (s, [])"
| "deliver_all s (b # bs) =
     (let (s1, ev1) = MarketDataService_OnMessage s b;
          (s2, ev2) = deliver_all s1 bs
      in (s2, ev1 @ ev2))"

text \<open>The bids and the offers among the rows read so far.\<close>

definition bids_of :: "(string \<times> Order) list \<Rightarrow> Order list" where
  "bids_of g = filter (\<lambda>x. Order_side x = BID) (map snd g)"

definition offers_of :: "(string \<times> Order) list \<Rightarrow> Order list" where
  "offers_of g = filter (\<lambda>x. Order_side x = OFFER) (map snd g)"

text \<open>
  A market data file for US2Y at the default depth: five bids, five offers, and two rows
  more.
\<close>

definition bid_line :: string where
  "bid_line = ''9128283H1,99-16+,1000000,BID''"

definition offer_line :: string where
  "offer_line = ''9128283H1,99-170,2000000,OFFER''"

definition bid_row :: "string \<times> Order" where
  "bid_row = (''9128283H1'', mkOrder (25476 / 256) 1000000 BID)"

definition offer_row :: "string \<times> Order" where
  "offer_row = (''9128283H1'', mkOrder (25480 / 256) 2000000 OFFER)"

definition twelve_lines :: "string list" where
  "twelve_lines = [bid_line, bid_line, bid_line, bid_line, bid_line,
     offer_line, offer_line, offer_line, offer_line, offer_line, bid_line, offer_line]"

definition twelve_rows :: "(string \<times> Order) list" where
  "twelve_rows = [bid_row, bid_row, bid_row, bid_row, bid_row,
     offer_row, offer_row, offer_row, offer_row, offer_row, bid_row, offer_row]"

definition ten_row_book :: OrderBook where
  "ten_row_book = \<lparr>OB_product = GetBond ''9128283H1'',
     OB_bidStack = [snd bid_row, snd bid_row, snd bid_row, snd bid_row, snd bid_row],
     OB_offerStack = [snd offer_row, snd offer_row, snd offer_row, snd offer_row, snd offer_row]\<rparr>"

section \<open>Execution service: storing and dispatching\<close>

text \<open>
  C8. \<^verbatim>\<open>ExecutionService::OnMessage\<close> stores the order under the product id of its
  product and makes no listener callback; \<^verbatim>\<open>ExecuteOrder\<close> stores the order the same way
  and calls \<^verbatim>\<open>ProcessAdd\<close> once on every registered listener, in registration order. Of
  all member functions of the service only \<^verbatim>\<open>ExecuteOrder\<close> makes callbacks, and only
  \<^verbatim>\<open>AddListener\<close> changes who is called; when the service's own listener runs
  \<^verbatim>\<open>OnMessage\<close> and then \<^verbatim>\<open>ExecuteOrder\<close>, the callbacks are those of
  \<^verbatim>\<open>ExecuteOrder\<close> alone.
\<close>

theorem ExecutionService_dispatch_only_in_ExecuteOrder:
  "ExecutionService_OnMessage s d =
      (s\<lparr>executionOrders := (executionOrders s)(Bond_productId (EO_product d) \<mapsto> d)\<rparr>, [])
   \<and> ExecutionService_ExecuteOrder s d =
      (s\<lparr>executionOrders := (executionOrders s)(Bond_productId (EO_product d) \<mapsto> d)\<rparr>,
       map (\<lambda>l. ProcessAdd l d) (ES_listeners s))
   \<and> snd (ExecutionService_do s c) =
      (case c of Call_ExecuteOrder d' \<Rightarrow> map (\<lambda>l. ProcessAdd l d') (ES_listeners s) | _ \<Rightarrow> [])
   \<and> ES_listeners (fst (ExecutionService_do s c)) =
      (case c of Call_AddListener l \<Rightarrow> ES_listeners s @ [l] | _ \<Rightarrow> ES_listeners s)
   \<and> snd (ExecutionToAlgoExecutionListener_ProcessAdd s d) =
      snd (ExecutionService_ExecuteOrder s d)"
  by (cases c)
     (simp_all add: ExecutionService_OnMessage_def ExecutionService_ExecuteOrder_def dispatch_def
        ExecutionToAlgoExecutionListener_ProcessAdd_def ExecutionService_AddListener_def
        ExecutionService_GetData_def Let_def split: option.split)

section \<open>Algo execution: the cross\<close>

lemma smod_2_nonneg: "0 \<le> (c::int) \<Longrightarrow> c smod 2 = c mod 2"
  by (simp add: smod_int_alt_def sgn_if)

lemma cross_switch_nonneg:
  "0 \<le> c \<Longrightarrow> cross_switch c b a =
     Some (if even c then (Order_price b, Order_quantity b, BID)
           else (Order_price a, Order_quantity a, OFFER))"
  by (auto simp: cross_switch_def smod_2_nonneg even_iff_mod_2_eq_zero odd_iff_mod_2_eq_one)

lemma AES_reachable_inv: "AES_reachable s \<Longrightarrow> AES_spread s = 1 / 128 \<and> 0 \<le> AES_count s"
proof (induction rule: AES_reachable.induct)
  case AES_ctor
  show ?case by (simp add: AlgoExecutionService_init_def)
next
  case (AES_OnMessage s d)
  then show ?case by (simp add: AlgoExecutionService_OnMessage_def)
next
  case (AES_GetData s m)
  then show ?case by simp
next
  case (AES_AddListener s l)
  then show ?case by (simp add: AlgoExecutionService_AddListener_def)
next
  case (AES_AlgoExecuteOrder s orderId book s' ev)
  then show ?case
    by (auto simp: AlgoExecutionService_AlgoExecuteOrder_def Let_def
             split: option.splits if_splits prod.splits)
qed

text \<open>The two scans of \<^verbatim>\<open>GetBidOffer\<close> pick an order of the highest bid price and one of the lowest offer price.\<close>

lemma bid_scan_inv:
  "bid_scan (bp, bo) xs = (bp', bo') \<Longrightarrow>
     (\<forall>x \<in> set xs. Order_price x \<le> bp') \<and> bp \<le> bp'
   \<and> ((bp' = bp \<and> bo' = bo) \<or> (\<exists>b \<in> set xs. bo' = Some b \<and> Order_price b = bp'))"
proof (induction xs arbitrary: bp bo)
  case Nil
  then show ?case by simp
next
  case (Cons x xs)
  show ?case
  proof (cases "Order_price x > bp")
    case True
    with Cons.prems have "bid_scan (Order_price x, Some x) xs = (bp', bo')"
      by (simp add: Let_def)
    from Cons.IH [OF this] True show ?thesis by auto
  next
    case False
    with Cons.prems have "bid_scan (bp, bo) xs = (bp', bo')"
      by (simp add: Let_def)
    from Cons.IH [OF this] False show ?thesis by auto
  qed
qed

lemma offer_scan_inv:
  "offer_scan (op, oo) xs = (op', oo') \<Longrightarrow>
     (\<forall>x \<in> set xs. op' \<le> Order_price x) \<and> op' \<le> op
   \<and> ((op' = op \<and> oo' = oo) \<or> (\<exists>a \<in> set xs. oo' = Some a \<and> Order_price a = op'))"
proof (induction xs arbitrary: op oo)
  case Nil
  then show ?case by simp
next
  case (Cons x xs)
  show ?case
  proof (cases "Order_price x < op")
    case True
    with Cons.prems have "offer_scan (Order_price x, Some x) xs = (op', oo')"
      by (simp add: Let_def)
    from Cons.IH [OF this] True show ?thesis by auto
  next
    case False
    with Cons.prems have "offer_scan (op, oo) xs = (op', oo')"
      by (simp add: Let_def)
    from Cons.IH [OF this] False show ?thesis by auto
  qed
qed

lemma GetBidOffer_best:
  assumes "OrderBook_GetBidOffer book = \<lparr>BO_bidOrder = Some b, BO_offerOrder = Some a\<rparr>"
  shows "b \<in> set (OB_bidStack book) \<and> (\<forall>x \<in> set (OB_bidStack book). Order_price x \<le> Order_price b)
    \<and> a \<in> set (OB_offerStack book) \<and> (\<forall>x \<in> set (OB_offerStack book). Order_price a \<le> Order_price x)"
proof -
  obtain bp where 1: "bid_scan (INT_MIN, None) (OB_bidStack book) = (bp, Some b)"
    using assms by (cases "bid_scan (INT_MIN, None) (OB_bidStack book)")
      (simp add: OrderBook_GetBidOffer_def)
  obtain ap where 2: "offer_scan (INT_MAX, None) (OB_offerStack book) = (ap, Some a)"
    using assms by (cases "offer_scan (INT_MAX, None) (OB_offerStack book)")
      (simp add: OrderBook_GetBidOffer_def)
  from bid_scan_inv [OF 1] offer_scan_inv [OF 2] show ?thesis by auto
qed

lemma bid_scan_finds:
  assumes "\<exists>x \<in> set xs. INT_MIN < Order_price x"
  shows "\<exists>b. snd (bid_scan (INT_MIN, None) xs) = Some b"
proof -
  obtain bp bo where r: "bid_scan (INT_MIN, None) xs = (bp, bo)"
    by (cases "bid_scan (INT_MIN, None) xs")
  from assms obtain x where x: "x \<in> set xs" "INT_MIN < Order_price x" by blast
  from bid_scan_inv [OF r] x have "INT_MIN < bp" by force
  with bid_scan_inv [OF r] have "\<exists>b. bo = Some b" by auto
  then show ?thesis by (simp add: r)
qed

lemma offer_scan_finds:
  assumes "\<exists>x \<in> set xs. Order_price x < INT_MAX"
  shows "\<exists>a. snd (offer_scan (INT_MAX, None) xs) = Some a"
proof -
  obtain ap ao where r: "offer_scan (INT_MAX, None) xs = (ap, ao)"
    by (cases "offer_scan (INT_MAX, None) xs")
  from assms obtain x where x: "x \<in> set xs" "Order_price x < INT_MAX" by blast
  from offer_scan_inv [OF r] x have "ap < INT_MAX" by force
  with offer_scan_inv [OF r] have "\<exists>a. ao = Some a" by auto
  then show ?thesis by (simp add: r)
qed

lemma AlgoExecuteOrder_step:
  assumes "AES_spread s = 1 / 128" and "0 \<le> AES_count s"
    and "OrderBook_GetBidOffer book = \<lparr>BO_bidOrder = Some b, BO_offerOrder = Some a\<rparr>"
  shows "AlgoExecutionService_AlgoExecuteOrder s orderId book =
    (if Order_price a - Order_price b \<le> 1 / 128
     then let x = \<lparr>AE_executionOrder =
                    \<lparr>EO_product = OB_product book,
                     EO_side = (if even (AES_count s) then BID else OFFER),
                     EO_orderId = orderId,
                     EO_orderType = MARKET,
                     EO_price = (if even (AES_count s) then Order_price b else Order_price a),
                     EO_visibleQuantity =
                       of_int (sint (if even (AES_count s) then Order_quantity b
                                     else Order_quantity a)),
                     EO_hiddenQuantity = 0,
                     EO_parentOrderId = [],
                     EO_isChildOrder = False\<rparr>\<rparr>
          in Inr (s\<lparr>AES_count := AES_count s + 1,
                    algoExecutions := (algoExecutions s)(Bond_productId (OB_product book) \<mapsto> x)\<rparr>,
                  map (\<lambda>l. ProcessAdd l x) (AES_listeners s))
     else Inr (s, []))"
  using assms
  by (simp add: AlgoExecutionService_AlgoExecuteOrder_def Let_def cross_switch_nonneg
      dispatch_def mkAlgoExecution_def)

text \<open>
  C1 (as amended). In a state of the service reached from its constructor, for an order
  book whose bid stack holds an order priced above \<^verbatim>\<open>INT_MIN\<close> and whose offer stack holds
  an order priced below \<^verbatim>\<open>INT_MAX\<close>: \<^verbatim>\<open>GetBidOffer\<close> yields a best bid \<open>b\<close> (an order of
  the bid stack with the highest price) and a best offer \<open>a\<close> (an order of the offer stack
  with the lowest price), and \<^verbatim>\<open>AlgoExecuteOrder\<close> stores and dispatches a new algo
  execution exactly when \<open>price a - price b \<le> 1/128\<close>. The execution order of the cross is a
  market order with the generated id, no parent and hidden quantity 0; its side is BID, its
  price the bid price and its visible quantity the bid quantity when the counter is even,
  and OFFER, the offer price and the offer quantity when the counter is odd. It is stored
  under the product id of the book and passed to \<^verbatim>\<open>ProcessAdd\<close> of every listener, and
  the counter goes up by one. When the spread is wider nothing is stored, nothing dispatched
  and the counter keeps its value.
\<close>

theorem AlgoExecuteOrder_cross_iff_tight_spread:
  assumes "AES_reachable s"
    and "\<exists>x \<in> set (OB_bidStack book). INT_MIN < Order_price x"
    and "\<exists>x \<in> set (OB_offerStack book). Order_price x < INT_MAX"
  shows "\<exists>b a. OrderBook_GetBidOffer book = \<lparr>BO_bidOrder = Some b, BO_offerOrder = Some a\<rparr>
    \<and> b \<in> set (OB_bidStack book)
    \<and> (\<forall>x \<in> set (OB_bidStack book). Order_price x \<le> Order_price b)
    \<and> a \<in> set (OB_offerStack book)
    \<and> (\<forall>x \<in> set (OB_offerStack book). Order_price a \<le> Order_price x)
    \<and> AlgoExecutionService_AlgoExecuteOrder s orderId book =
        (if Order_price a - Order_price b \<le> 1 / 128
         then let x = \<lparr>AE_executionOrder =
                        \<lparr>EO_product = OB_product book,
                         EO_side = (if even (AES_count s) then BID else OFFER),
                         EO_orderId = orderId,
                         EO_orderType = MARKET,
                         EO_price = (if even (AES_count s) then Order_price b else Order_price a),
                         EO_visibleQuantity =
                           of_int (sint (if even (AES_count s) then Order_quantity b
                                         else Order_quantity a)),
                         EO_hiddenQuantity = 0,
                         EO_parentOrderId = [],
                         EO_isChildOrder = False\<rparr>\<rparr>
              in Inr (s\<lparr>AES_count := AES_count s + 1,
                        algoExecutions :=
                          (algoExecutions s)(Bond_productId (OB_product book) \<mapsto> x)\<rparr>,
                      map (\<lambda>l. ProcessAdd l x) (AES_listeners s))
         else Inr (s, []))"
proof -
  from assms(1) have inv: "AES_spread s = 1 / 128" "0 \<le> AES_count s"
    using AES_reachable_inv by blast+
  from bid_scan_finds [OF assms(2)] offer_scan_finds [OF assms(3)]
  obtain b a where g: "OrderBook_GetBidOffer book = \<lparr>BO_bidOrder = Some b, BO_offerOrder = Some a\<rparr>"
    by (auto simp: OrderBook_GetBidOffer_def)
  from AlgoExecuteOrder_step [OF inv g, of orderId] GetBidOffer_best [OF g] g
  show ?thesis by blast
qed

lemma GetBidOffer_tight_book:
  "OrderBook_GetBidOffer tight_book =
     \<lparr>BO_bidOrder = Some (mkOrder (25596 / 256) 1000000 BID),
      BO_offerOrder = Some (mkOrder (25597 / 256) 4000000 OFFER)\<rparr>"
  by (simp add: OrderBook_GetBidOffer_def tight_book_def mkOrder_def INT_MIN_def INT_MAX_def Let_def)

lemma product_tight_book:
  "OB_product tight_book = GetBond ''9128283H1''"
  "Bond_productId (GetBond ''9128283H1'') = ''9128283H1''"
  by (simp_all add: tight_book_def GetBond_def mkBond_def)

lemma first_cross_step:
  "AlgoExecutionService_AlgoExecuteOrder
     (AlgoExecutionService_AddListener AlgoExecutionService_init 7) ''ID0'' tight_book =
   Inr (service_after_first_cross, [ProcessAdd 7 first_cross])"
proof -
  have "AES_spread (AlgoExecutionService_AddListener AlgoExecutionService_init 7) = 1 / 128"
    and "0 \<le> AES_count (AlgoExecutionService_AddListener AlgoExecutionService_init 7)"
    by (simp_all add: AlgoExecutionService_AddListener_def AlgoExecutionService_init_def)
  from AlgoExecuteOrder_step [OF this GetBidOffer_tight_book, of "''ID0''"]
  show ?thesis
    by (simp add: product_tight_book AlgoExecutionService_AddListener_def Let_def
        AlgoExecutionService_init_def service_after_first_cross_def first_cross_def mkOrder_def)
qed

lemma reachable_after_first_cross: "AES_reachable service_after_first_cross"
  using AES_AddListener [OF AES_ctor, of 7] first_cross_step by (rule AES_AlgoExecuteOrder)

theorem AlgoExecuteOrder_cross_iff_tight_spread_witness:
  "AES_reachable service_after_first_cross
   \<and> (\<exists>x \<in> set (OB_bidStack tight_book). INT_MIN < Order_price x)
   \<and> (\<exists>x \<in> set (OB_offerStack tight_book). Order_price x < INT_MAX)
   \<and> OrderBook_GetBidOffer tight_book =
       \<lparr>BO_bidOrder = Some (mkOrder (25596 / 256) 1000000 BID),
        BO_offerOrder = Some (mkOrder (25597 / 256) 4000000 OFFER)\<rparr>
   \<and> AlgoExecutionService_AlgoExecuteOrder service_after_first_cross ''ID1'' tight_book =
       Inr (\<lparr>algoExecutions = [''9128283H1'' \<mapsto>
                \<lparr>AE_executionOrder =
                   \<lparr>EO_product = GetBond ''9128283H1'', EO_side = OFFER, EO_orderId = ''ID1'',
                    EO_orderType = MARKET, EO_price = 25597 / 256,
                    EO_visibleQuantity = 4000000, EO_hiddenQuantity = 0,
                    EO_parentOrderId = [], EO_isChildOrder = False\<rparr>\<rparr>],
              AES_listeners = [7], AES_spread = 1 / 128, AES_count = 2\<rparr>,
            [ProcessAdd 7
               \<lparr>AE_executionOrder =
                  \<lparr>EO_product = GetBond ''9128283H1'', EO_side = OFFER, EO_orderId = ''ID1'',
                   EO_orderType = MARKET, EO_price = 25597 / 256,
                   EO_visibleQuantity = 4000000, EO_hiddenQuantity = 0,
                   EO_parentOrderId = [], EO_isChildOrder = False\<rparr>\<rparr>])"
proof -
  have hb: "\<exists>x \<in> set (OB_bidStack tight_book). INT_MIN < Order_price x"
    by (simp add: tight_book_def mkOrder_def INT_MIN_def)
  have ho: "\<exists>x \<in> set (OB_offerStack tight_book). Order_price x < INT_MAX"
    by (simp add: tight_book_def mkOrder_def INT_MAX_def)
  from AlgoExecuteOrder_cross_iff_tight_spread [OF reachable_after_first_cross hb ho, of "''ID1''"]
  obtain b a where
    g: "OrderBook_GetBidOffer tight_book = \<lparr>BO_bidOrder = Some b, BO_offerOrder = Some a\<rparr>"
    and e: "AlgoExecutionService_AlgoExecuteOrder service_after_first_cross ''ID1'' tight_book =
        (if Order_price a - Order_price b \<le> 1 / 128
         then let x = \<lparr>AE_executionOrder =
                        \<lparr>EO_product = OB_product tight_book,
                         EO_side = (if even (AES_count service_after_first_cross) then BID else OFFER),
                         EO_orderId = ''ID1'',
                         EO_orderType = MARKET,
                         EO_price = (if even (AES_count service_after_first_cross)
                                     then Order_price b else Order_price a),
                         EO_visibleQuantity =
                           of_int (sint (if even (AES_count service_after_first_cross)
                                         then Order_quantity b else Order_quantity a)),
                         EO_hiddenQuantity = 0,
                         EO_parentOrderId = [],
                         EO_isChildOrder = False\<rparr>\<rparr>
              in Inr (service_after_first_cross
                        \<lparr>AES_count := AES_count service_after_first_cross + 1,
                         algoExecutions :=
                           (algoExecutions service_after_first_cross)
                             (Bond_productId (OB_product tight_book) \<mapsto> x)\<rparr>,
                      map (\<lambda>l. ProcessAdd l x) (AES_listeners service_after_first_cross))
         else Inr (service_after_first_cross, []))"
    by blast
  from g have b: "b = mkOrder (25596 / 256) 1000000 BID" and a: "a = mkOrder (25597 / 256) 4000000 OFFER"
    by (simp_all add: GetBidOffer_tight_book)
  have r: "AlgoExecutionService_AlgoExecuteOrder service_after_first_cross ''ID1'' tight_book =
       Inr (\<lparr>algoExecutions = [''9128283H1'' \<mapsto>
                \<lparr>AE_executionOrder =
                   \<lparr>EO_product = GetBond ''9128283H1'', EO_side = OFFER, EO_orderId = ''ID1'',
                    EO_orderType = MARKET, EO_price = 25597 / 256,
                    EO_visibleQuantity = 4000000, EO_hiddenQuantity = 0,
                    EO_parentOrderId = [], EO_isChildOrder = False\<rparr>\<rparr>],
              AES_listeners = [7], AES_spread = 1 / 128, AES_count = 2\<rparr>,
            [ProcessAdd 7
               \<lparr>AE_executionOrder =
                  \<lparr>EO_product = GetBond ''9128283H1'', EO_side = OFFER, EO_orderId = ''ID1'',
                   EO_orderType = MARKET, EO_price = 25597 / 256,
                   EO_visibleQuantity = 4000000, EO_hiddenQuantity = 0,
                   EO_parentOrderId = [], EO_isChildOrder = False\<rparr>\<rparr>])"
    unfolding e
    by (simp add: a b mkOrder_def product_tight_book service_after_first_cross_def Let_def)
  from reachable_after_first_cross hb ho GetBidOffer_tight_book r show ?thesis by blast
qed

text \<open>
  On \<open>sentinel_book\<close> the best offer is 1/256 above the best bid, but the offer price
  3000000000 is not below \<^verbatim>\<open>INT_MAX\<close>: the scan of \<^verbatim>\<open>GetBidOffer\<close> assigns no offer
  order, \<^verbatim>\<open>AlgoExecuteOrder\<close> reads an order that was never initialised, and no cross is
  stored or dispatched.
\<close>

theorem AlgoExecuteOrder_no_cross_behind_sentinel:
  "AES_reachable AlgoExecutionService_init
   \<and> OB_bidStack sentinel_book = [mkOrder (3000000000 - 1 / 256) 1000000 BID]
   \<and> OB_offerStack sentinel_book = [mkOrder 3000000000 2000000 OFFER]
   \<and> Order_price (mkOrder 3000000000 2000000 OFFER)
       - Order_price (mkOrder (3000000000 - 1 / 256) 1000000 BID) \<le> 1 / 128
   \<and> BO_offerOrder (OrderBook_GetBidOffer sentinel_book) = None
   \<and> AlgoExecutionService_AlgoExecuteOrder AlgoExecutionService_init ''ID0'' sentinel_book =
       Inl UninitialisedRead"
proof -
  have g: "OrderBook_GetBidOffer sentinel_book =
      \<lparr>BO_bidOrder = Some (mkOrder (3000000000 - 1 / 256) 1000000 BID), BO_offerOrder = None\<rparr>"
    by (simp add: OrderBook_GetBidOffer_def sentinel_book_def mkOrder_def INT_MIN_def
        INT_MAX_def Let_def)
  have "AlgoExecutionService_AlgoExecuteOrder AlgoExecutionService_init ''ID0'' sentinel_book =
       Inl UninitialisedRead"
    by (simp add: AlgoExecutionService_AlgoExecuteOrder_def g Let_def)
  with g AES_ctor show ?thesis
    by (simp add: sentinel_book_def mkOrder_def)
qed

lemma AlgoExecuteOrder_Inr_cases:
  assumes "AES_spread s = 1 / 128" and "0 \<le> AES_count s" and "AES_listeners s = [l]"
    and "AlgoExecutionService_AlgoExecuteOrder s oid book = Inr (s1, ev1)"
  shows "(s1 = s \<and> ev1 = []) \<or>
         (\<exists>x. ev1 = [ProcessAdd l x] \<and> EO_side (AE_executionOrder x) = parity_side (AES_count s)
              \<and> AES_count s1 = AES_count s + 1 \<and> AES_spread s1 = 1 / 128
              \<and> AES_listeners s1 = [l])"
  using assms
  by (auto simp: AlgoExecutionService_AlgoExecuteOrder_def Let_def cross_switch_nonneg
        dispatch_def parity_side_def mkAlgoExecution_def
      split: option.splits if_splits)

text \<open>
  Over a stream of updates the sides of the crosses alternate, whatever the products: the
  k-th cross after a state with counter \<open>c\<close> has the side of the parity of \<open>c + k\<close>
  (seen by a single listener).
\<close>

lemma AlgoExecutionService_feed_sides_alternate:
  "AES_spread s = 1 / 128 \<Longrightarrow> 0 \<le> AES_count s \<Longrightarrow> AES_listeners s = [l]
    \<Longrightarrow> AlgoExecutionService_feed s xs = Inr (s', evs)
    \<Longrightarrow> map event_side evs = map (\<lambda>k. parity_side (AES_count s + int k)) [0..<length evs]
        \<and> AES_count s' = AES_count s + int (length evs)"
proof (induction xs arbitrary: s evs)
  case Nil
  then show ?case by simp
next
  case (Cons x xs)
  obtain oid book where x: "x = (oid, book)" by (cases x)
  from Cons.prems(4) obtain s1 ev1 evr where
    st: "AlgoExecutionService_AlgoExecuteOrder s oid book = Inr (s1, ev1)"
    and rest: "AlgoExecutionService_feed s1 xs = Inr (s', evr)" and evs: "evs = ev1 @ evr"
    by (auto simp: x split: sum.splits prod.splits)
  from AlgoExecuteOrder_Inr_cases [OF Cons.prems(1-3) st]
  show ?case
  proof
    assume "s1 = s \<and> ev1 = []"
    with Cons.IH [OF Cons.prems(1-3), of evr] rest evs show ?thesis by simp
  next
    assume "\<exists>x. ev1 = [ProcessAdd l x] \<and> EO_side (AE_executionOrder x) = parity_side (AES_count s)
              \<and> AES_count s1 = AES_count s + 1 \<and> AES_spread s1 = 1 / 128
              \<and> AES_listeners s1 = [l]"
    then obtain y where ev1: "ev1 = [ProcessAdd l y]"
      and sd: "EO_side (AE_executionOrder y) = parity_side (AES_count s)"
      and c1: "AES_count s1 = AES_count s + 1" and sp: "AES_spread s1 = 1 / 128"
      and ls: "AES_listeners s1 = [l]" by blast
    from c1 Cons.prems(2) have nn: "0 \<le> AES_count s1" by simp
    from Cons.IH [OF sp nn ls rest]
    have ih: "map event_side evr = map (\<lambda>k. parity_side (AES_count s1 + int k)) [0..<length evr]"
      and cnt: "AES_count s' = AES_count s1 + int (length evr)" by simp_all
    have "[0..<length evs] = 0 # map Suc [0..<length evr]"
      by (simp add: evs ev1 upt_conv_Cons map_Suc_upt del: upt_Suc)
    moreover have "event_side (ProcessAdd l y) = parity_side (AES_count s)"
      by (simp add: event_side_def sd)
    ultimately show ?thesis
      using ih cnt by (simp add: evs ev1 c1 comp_def add.assoc del: upt_Suc)
  qed
qed

section \<open>Inquiry service: the quoting round trip\<close>

lemma InquiryService_OnMessage_QUOTED:
  "Inquiry_state d = QUOTED \<Longrightarrow>
   InquiryService_OnMessage s d =
     (s\<lparr>inquiries := (inquiries s)(Inquiry_inquiryId d \<mapsto> d\<lparr>Inquiry_state := DONE\<rparr>)\<rparr>,
      d\<lparr>Inquiry_state := DONE\<rparr>,
      map (\<lambda>l. ProcessAdd l (d\<lparr>Inquiry_state := DONE\<rparr>)) (IS_listeners s))"
  by (simp add: Inquiry_SetState_def dispatch_def Let_def)

lemma InquiryService_OnMessage_RECEIVED:
  "Inquiry_state d = RECEIVED \<Longrightarrow>
   InquiryService_OnMessage s d =
     (s\<lparr>inquiries := (inquiries s)(Inquiry_inquiryId d \<mapsto> d\<lparr>Inquiry_state := DONE\<rparr>)\<rparr>,
      d\<lparr>Inquiry_state := DONE\<rparr>,
      map (\<lambda>l. ProcessAdd l (d\<lparr>Inquiry_state := DONE\<rparr>)) (IS_listeners s))"
  by (simp add: Inquiry_SetState_def dispatch_def Let_def)

lemma count_events_dispatch:
  "length (filter (\<lambda>e. event_listener e = l) (map (\<lambda>l. ProcessAdd l d) ls)) = count_list ls l"
  by (induction ls) (simp_all add: event_listener_def)

text \<open>
  C3. For an inquiry \<open>d\<close> that arrives in state RECEIVED, \<^verbatim>\<open>OnMessage\<close> returns with the
  inquiry stored under its id in state DONE, and the callbacks made are one
  \<^verbatim>\<open>ProcessAdd\<close> of that DONE inquiry per entry of the listener vector, in registration
  order: a listener gets as many events as it has registrations (one, when registered once).
  The call is one pass through \<^verbatim>\<open>Publish\<close>, which hands the QUOTED copy back to
  \<^verbatim>\<open>OnMessage\<close>, and that second call does not recurse.
\<close>

theorem InquiryService_OnMessage_RECEIVED_reaches_DONE:
  assumes "Inquiry_state d = RECEIVED"
  shows "InquiryService_OnMessage s d =
     (s\<lparr>inquiries := (inquiries s)(Inquiry_inquiryId d \<mapsto> d\<lparr>Inquiry_state := DONE\<rparr>)\<rparr>,
      d\<lparr>Inquiry_state := DONE\<rparr>,
      map (\<lambda>l. ProcessAdd l (d\<lparr>Inquiry_state := DONE\<rparr>)) (IS_listeners s))
   \<and> map_option Inquiry_state
        (inquiries (fst (InquiryService_OnMessage s d)) (Inquiry_inquiryId d)) = Some DONE
   \<and> length (filter (\<lambda>e. event_listener e = l) (snd (snd (InquiryService_OnMessage s d))))
        = count_list (IS_listeners s) l
   \<and> InquiryService_OnMessage s d =
        InquiryService_OnMessage (s\<lparr>inquiries := (inquiries s)(Inquiry_inquiryId d \<mapsto> d)\<rparr>)
          (d\<lparr>Inquiry_state := QUOTED\<rparr>)"
proof -
  have 1: "InquiryService_OnMessage s d =
     (s\<lparr>inquiries := (inquiries s)(Inquiry_inquiryId d \<mapsto> d\<lparr>Inquiry_state := DONE\<rparr>)\<rparr>,
      d\<lparr>Inquiry_state := DONE\<rparr>,
      map (\<lambda>l. ProcessAdd l (d\<lparr>Inquiry_state := DONE\<rparr>)) (IS_listeners s))"
    using assms by (rule InquiryService_OnMessage_RECEIVED)
  have 2: "InquiryService_OnMessage s d =
        InquiryService_OnMessage (s\<lparr>inquiries := (inquiries s)(Inquiry_inquiryId d \<mapsto> d)\<rparr>)
          (d\<lparr>Inquiry_state := QUOTED\<rparr>)"
    unfolding 1
    by (simp add: InquiryService_OnMessage_QUOTED del: InquiryService_OnMessage.simps)
  have 3: "map_option Inquiry_state
        (inquiries (fst (InquiryService_OnMessage s d)) (Inquiry_inquiryId d)) = Some DONE"
    unfolding 1 by simp
  have 4: "length (filter (\<lambda>e. event_listener e = l) (snd (snd (InquiryService_OnMessage s d))))
        = count_list (IS_listeners s) l"
    by (simp only: 1 snd_conv count_events_dispatch)
  from 1 2 3 4 show ?thesis by blast
qed

theorem InquiryService_OnMessage_RECEIVED_reaches_DONE_witness:
  "Inquiry_state inquiry_I1 = RECEIVED
   \<and> map_option Inquiry_state
        (inquiries (fst (InquiryService_OnMessage inquiry_service_2 inquiry_I1)) ''I1'') = Some DONE
   \<and> snd (snd (InquiryService_OnMessage inquiry_service_2 inquiry_I1)) =
        [ProcessAdd 7 (inquiry_I1\<lparr>Inquiry_state := DONE\<rparr>),
         ProcessAdd 8 (inquiry_I1\<lparr>Inquiry_state := DONE\<rparr>)]
   \<and> length (filter (\<lambda>e. event_listener e = 7)
        (snd (snd (InquiryService_OnMessage inquiry_service_2 inquiry_I1)))) = 1"
proof -
  have r: "Inquiry_state inquiry_I1 = RECEIVED" by (simp add: inquiry_I1_def)
  have i: "Inquiry_inquiryId inquiry_I1 = ''I1''" by (simp add: inquiry_I1_def)
  have a: "InquiryService_OnMessage inquiry_service_2 inquiry_I1 =
     (inquiry_service_2\<lparr>inquiries := (inquiries inquiry_service_2)
          (Inquiry_inquiryId inquiry_I1 \<mapsto> inquiry_I1\<lparr>Inquiry_state := DONE\<rparr>)\<rparr>,
      inquiry_I1\<lparr>Inquiry_state := DONE\<rparr>,
      map (\<lambda>l. ProcessAdd l (inquiry_I1\<lparr>Inquiry_state := DONE\<rparr>)) (IS_listeners inquiry_service_2))"
    using InquiryService_OnMessage_RECEIVED_reaches_DONE [OF r, of inquiry_service_2 7]
    by blast
  show ?thesis
    unfolding a by (simp add: r i inquiry_service_2_def event_listener_def)
qed

section \<open>Inquiry service: sending a quote\<close>



section \<open>Depth aggregation\<close>

lemma keys_table_add:
  "map fst (table_add k q t) = (if k \<in> fst ` set t then map fst t else map fst t @ [k])"
  by (induction t) (auto simp: image_iff, force+)

lemma map_of_table_add:
  "map_of (table_add k q t) k' = (if k' = k then Some (tval t k + q) else map_of t k')"
  by (induction t) (auto simp: tval_def)

lemma distinct_table_add: "distinct (map fst t) \<Longrightarrow> distinct (map fst (table_add k q t))"
  by (simp add: keys_table_add)

lemma tval_table_add: "tval (table_add k q t) k' = (if k' = k then tval t k + q else tval t k')"
  by (simp add: tval_def map_of_table_add)

lemma table_fill_inv:
  "distinct (map fst t) \<Longrightarrow>
     distinct (map fst (table_fill t xs))
   \<and> fst ` set (table_fill t xs) = fst ` set t \<union> Order_price ` set xs
   \<and> (\<forall>k. tval (table_fill t xs) k = tval t k + quantity_at k xs)"
proof (induction xs arbitrary: t)
  case Nil
  then show ?case by (simp add: quantity_at_def)
next
  case (Cons x xs)
  let ?t = "table_add (Order_price x) (Order_quantity x) t"
  have d: "distinct (map fst ?t)" using Cons.prems by (rule distinct_table_add)
  have k: "fst ` set ?t = insert (Order_price x) (fst ` set t)"
    using keys_table_add [of "Order_price x" "Order_quantity x" t]
    by (metis (no_types, lifting) Un_insert_right append_Nil2 insert_absorb list.set(2) list.set_map set_append)
  from Cons.IH [OF d] show ?case
    by (auto simp: k tval_table_add quantity_at_def)
qed

lemma distinct_lists_entries:
  "distinct (map fst t) \<Longrightarrow> (k, v) \<in> set t \<Longrightarrow> tval t k = v"
  by (simp add: tval_def)

lemma traversal_set: "traversal iter \<Longrightarrow> set (iter t) = set t"
  by (metis traversal_def set_mset_mset)

lemma traversal_distinct_keys:
  "traversal iter \<Longrightarrow> distinct (map fst (iter t)) = distinct (map fst t)"
proof -
  assume "traversal iter"
  then have "mset (map fst (iter t)) = mset (map fst t)"
    by (simp add: traversal_def)
  then show ?thesis by (rule mset_eq_imp_distinct_iff)
qed

lemma prices_stack_of_table: "map Order_price (stack_of_table iter t sd) = map fst (iter t)"
  by (simp add: stack_of_table_def mkOrder_def case_prod_beta comp_def)

lemma stack_aggregated:
  assumes "traversal iter"
  shows "distinct (map Order_price (stack_of_table iter (table_fill [] xs) sd))
    \<and> Order_price ` set (stack_of_table iter (table_fill [] xs) sd) = Order_price ` set xs
    \<and> (\<forall>x \<in> set (stack_of_table iter (table_fill [] xs) sd).
          Order_side x = sd \<and> Order_quantity x = quantity_at (Order_price x) xs)"
proof -
  let ?t = "table_fill [] xs"
  have inv: "distinct (map fst ?t)" "fst ` set ?t = Order_price ` set xs"
    "\<And>k. tval ?t k = quantity_at k xs"
    using table_fill_inv [of "[]" xs] by (simp_all add: tval_def)
  have 1: "distinct (map Order_price (stack_of_table iter ?t sd))"
    by (simp add: prices_stack_of_table traversal_distinct_keys [OF assms] inv(1))
  have "set (map Order_price (stack_of_table iter ?t sd)) = fst ` set ?t"
    by (simp only: prices_stack_of_table set_map traversal_set [OF assms])
  then have 2: "Order_price ` set (stack_of_table iter ?t sd) = Order_price ` set xs"
    by (simp add: inv(2))
  have 3: "Order_side x = sd \<and> Order_quantity x = quantity_at (Order_price x) xs"
    if "x \<in> set (stack_of_table iter ?t sd)" for x
  proof -
    from that obtain p q where pq: "(p, q) \<in> set ?t" and x: "x = mkOrder p q sd"
      by (auto simp: stack_of_table_def traversal_set [OF assms])
    from distinct_lists_entries [OF inv(1) pq] have "q = quantity_at p xs"
      by (simp add: inv(3))
    then show ?thesis by (simp add: x mkOrder_def)
  qed
  from 1 2 3 show ?thesis by blast
qed

lemma table_add_fresh: "k \<notin> fst ` set t \<Longrightarrow> table_add k q t = t @ [(k, q)]"
  by (induction t) auto

lemma table_fill_distinct:
  "distinct (map fst (t @ ps)) \<Longrightarrow>
   table_fill t (map (\<lambda>(p, q). mkOrder p q sd) ps) = t @ ps"
proof (induction ps arbitrary: t)
  case Nil
  then show ?case by simp
next
  case (Cons a ps)
  obtain p q where a: "a = (p, q)" by (cases a)
  from Cons.prems have fresh: "p \<notin> fst ` set t" by (auto simp: a)
  from Cons.prems have "distinct (map fst ((t @ [(p, q)]) @ ps))" by (simp add: a)
  from Cons.IH [OF this] show ?case
    by (simp add: a mkOrder_def table_add_fresh [OF fresh])
qed

lemma stack_aggregate_twice:
  assumes "traversal iter"
  shows "mset (stack_of_table iter (table_fill [] (stack_of_table iter (table_fill [] xs) sd)) sd)
       = mset (stack_of_table iter (table_fill [] xs) sd)"
proof -
  let ?t = "table_fill [] xs"
  have "distinct (map fst ?t)" using table_fill_inv [of "[]" xs] by simp
  then have "distinct (map fst ([] @ iter ?t))"
    by (simp add: traversal_distinct_keys [OF assms])
  then have "table_fill [] (stack_of_table iter ?t sd) = iter ?t"
    unfolding stack_of_table_def using table_fill_distinct [of "[]" "iter ?t" sd] by simp
  moreover have "mset (iter (iter ?t)) = mset (iter ?t)"
    using assms by (simp add: traversal_def)
  ultimately show ?thesis
    by (simp add: stack_of_table_def)
qed

text \<open>
  What the loops of \<^verbatim>\<open>AggregateDepth\<close> put into the temporary: on each side one order
  per price of the stored book, with the summed quantity; and the temporary built from a
  temporary has the same orders.
\<close>

lemma AggregateDepth_temporary_stacks:
  "AggregateDepth_temporary iter stored =
     \<lparr>OB_product = OB_product stored,
      OB_bidStack = stack_of_table iter (table_fill [] (OB_bidStack stored)) BID,
      OB_offerStack = stack_of_table iter (table_fill [] (OB_offerStack stored)) OFFER\<rparr>"
  by (simp add: AggregateDepth_temporary_def Let_def)

lemma AggregateDepth_temporary_aggregated:
  assumes "traversal iter"
  shows "distinct (map Order_price (OB_bidStack (AggregateDepth_temporary iter b)))
    \<and> distinct (map Order_price (OB_offerStack (AggregateDepth_temporary iter b)))
    \<and> (\<forall>x \<in> set (OB_bidStack (AggregateDepth_temporary iter b)).
          Order_side x = BID \<and> Order_quantity x = quantity_at (Order_price x) (OB_bidStack b))
    \<and> (\<forall>x \<in> set (OB_offerStack (AggregateDepth_temporary iter b)).
          Order_side x = OFFER \<and> Order_quantity x = quantity_at (Order_price x) (OB_offerStack b))"
  using stack_aggregated [OF assms, of "OB_bidStack b" BID]
    stack_aggregated [OF assms, of "OB_offerStack b" OFFER]
  by (simp add: AggregateDepth_temporary_stacks)

lemma AggregateDepth_temporary_twice:
  assumes "traversal iter"
  shows "mset (OB_bidStack (AggregateDepth_temporary iter (AggregateDepth_temporary iter b)))
       = mset (OB_bidStack (AggregateDepth_temporary iter b))
    \<and> mset (OB_offerStack (AggregateDepth_temporary iter (AggregateDepth_temporary iter b)))
       = mset (OB_offerStack (AggregateDepth_temporary iter b))"
  by (simp add: AggregateDepth_temporary_stacks stack_aggregate_twice [OF assms])

text \<open>
  C4. \<^verbatim>\<open>AggregateDepth(productId)\<close> returns no order book: whatever is stored and
  whatever the traversal order of the hash tables, the reference it returns is to the
  temporary that the return destroys. The only effect of the call is the entry that
  \<^verbatim>\<open>orderBooks[productId]\<close> creates for a product that was not stored.
\<close>

theorem AggregateDepth_returns_dangling_reference:
  "MarketDataService_AggregateDepth iter s productId =
     (s\<lparr>orderBooks := (orderBooks s)(productId \<mapsto>
           (case orderBooks s productId of Some b \<Rightarrow> b | None \<Rightarrow> OrderBook_default))\<rparr>,
      Inl DanglingReference)"
  by (simp add: MarketDataService_AggregateDepth_def Let_def)

text \<open>
  C5. For the stored book of the spec's scenario (bids 100 x 10, 100 x 15 and 99.5 x 20)
  the call leaves the service as it was and returns no order book, so there is no
  aggregate to store and aggregate again.
\<close>

theorem AggregateDepth_scenario_returns_no_book:
  "MarketDataService_AggregateDepth rev scenario_service ''9128283F5'' =
     (scenario_service, Inl DanglingReference)
   \<and> OB_bidStack (AggregateDepth_temporary rev scenario_book) =
       [mkOrder (199 / 2) 20 BID, mkOrder 100 25 BID]"
  by (simp add: MarketDataService_AggregateDepth_def scenario_service_def Let_def
      AggregateDepth_temporary_def scenario_book_def stack_of_table_def mkOrder_def)

section \<open>Price conversion: the round trip\<close>

lemma digit_table:
  "list_all (\<lambda>n. digit_val (digit_char n) = n \<and> is_digit (digit_char n)
       \<and> digit_char n \<noteq> CHR ''-'' \<and> digit_char n \<noteq> CHR ''+'') [0..<10]"
  by code_simp

lemma digit_char_props:
  assumes "n < 10"
  shows "digit_val (digit_char n) = n" and "is_digit (digit_char n)"
    and "digit_char n \<noteq> CHR ''-''" and "digit_char n \<noteq> CHR ''+''"
  using digit_table assms by (simp_all add: list_all_iff)

lemma digits_val_append: "digits_val acc (xs @ ys) = digits_val (digits_val acc xs) ys"
  by (induction xs arbitrary: acc) simp_all

lemma digits_of_props:
  "digits_val 0 (digits_of n) = n \<and> list_all is_digit (digits_of n) \<and> digits_of n \<noteq> []"
proof (induction n rule: digits_of.induct)
  case (1 n)
  show ?case
  proof (cases "n < 10")
    case True
    then show ?thesis
      by (simp add: digits_of.simps [of n] digit_char_props)
  next
    case False
    have m: "n mod 10 < 10" by simp
    from False 1 show ?thesis
      by (simp add: digits_of.simps [of n] digits_val_append digit_char_props [OF m])
  qed
qed

lemma list_all_digit_takeWhile:
  "list_all is_digit s \<Longrightarrow> takeWhile is_digit s = s \<and> dropWhile is_digit s = []"
  by (induction s) simp_all

lemma unsigned_decimal_digits:
  "list_all is_digit s \<Longrightarrow> s \<noteq> [] \<Longrightarrow> unsigned_decimal s = Inr (of_nat (digits_val 0 s))"
  by (simp add: unsigned_decimal_def list_all_digit_takeWhile)

lemma stod_digits:
  assumes "list_all is_digit s" and "s \<noteq> []"
  shows "stod s = Inr (of_nat (digits_val 0 s))"
proof -
  from assms obtain c r where s: "s = c # r" and c: "is_digit c"
    by (cases s) auto
  from c have "c \<noteq> CHR ''-''" and "c \<noteq> CHR ''+''"
    by (auto simp: is_digit_def)
  then show ?thesis
    using unsigned_decimal_digits [OF assms] by (simp add: stod_def s)
qed

lemma not_minus_of_digit: "is_digit c \<Longrightarrow> c \<noteq> CHR ''-''"
  by (auto simp: is_digit_def)

lemma split_price_whole:
  "list_all is_digit ds \<Longrightarrow>
   split_price (0, s100, s32, s8) (ds @ rest) = split_price (0, s100 @ ds, s32, s8) rest"
  by (induction ds arbitrary: s100) (simp_all add: not_minus_of_digit)

lemma split_price_fraction:
  assumes "is_digit x" and "is_digit y" and "z \<noteq> CHR ''-''"
  shows "split_price (0, s100, [], []) (CHR ''-'' # [x, y] @ [z]) =
         (3, s100, [x, y], [if z = CHR ''+'' then CHR ''4'' else z])"
  using assms by (simp add: not_minus_of_digit)

lemma double_to_int_of_int:
  "double_to_int (of_int m) = (if - (2 ^ 31) \<le> m \<and> m < 2 ^ 31 then Inr m else Inl IntConversion)"
  by (simp add: double_to_int_def Let_def)

lemma to_string_nonneg: "0 \<le> i \<Longrightarrow> to_string i = digits_of (nat i)"
  by (simp add: to_string_def)

lemma digits_of_small: "n < 10 \<Longrightarrow> digits_of n = [digit_char n]"
  by (simp add: digits_of.simps [of n])

lemma digits_of_two: "10 \<le> n \<Longrightarrow> n < 100 \<Longrightarrow> digits_of n = [digit_char (n div 10), digit_char (n mod 10)]"
  by (simp add: digits_of.simps [of n] digits_of_small)

lemma str32_props:
  assumes "0 \<le> a" and "a < 32"
  shows "\<exists>x y. str32 a = [x, y] \<and> is_digit x \<and> is_digit y \<and> digits_val 0 [x, y] = nat a"
proof (cases "a < 10")
  case True
  with assms have "str32 a = [CHR ''0'', digit_char (nat a)]"
    by (simp add: str32_def to_string_nonneg digits_of_small)
  moreover have "is_digit (CHR ''0'')" "digit_val (CHR ''0'') = 0"
    by (simp_all add: is_digit_def digit_val_def)
  ultimately show ?thesis
    using True assms digit_char_props [of "nat a"] by simp
next
  case False
  with assms have n: "10 \<le> nat a" "nat a < 100" by simp_all
  from False assms have "str32 a = [digit_char (nat a div 10), digit_char (nat a mod 10)]"
    by (simp add: str32_def to_string_nonneg digits_of_two [OF n])
  moreover have "nat a div 10 < 10" using n by simp
  moreover have "nat a mod 10 < 10" by simp
  ultimately show ?thesis
    using digit_char_props [of "nat a div 10"] digit_char_props [of "nat a mod 10"]
    by simp
qed

lemma str8_props:
  assumes "0 \<le> c" and "c < 8"
  shows "\<exists>z. str8 c = [z] \<and> z \<noteq> CHR ''-''
     \<and> is_digit (if z = CHR ''+'' then CHR ''4'' else z)
     \<and> digit_val (if z = CHR ''+'' then CHR ''4'' else z) = nat c"
proof (cases "c = 4")
  case True
  then show ?thesis by (simp add: str8_def is_digit_def digit_val_def)
next
  case False
  with assms have "str8 c = [digit_char (nat c)]" and "nat c < 10"
    by (simp_all add: str8_def to_string_nonneg digits_of_small)
  then show ?thesis
    using digit_char_props [of "nat c"] by simp
qed

lemma small_int_in_range:
  "0 \<le> m \<Longrightarrow> m < 256 \<Longrightarrow> - (2 ^ 31) \<le> m \<and> m < (2 ^ 31 :: int)"
  by simp

lemma ConvertPrice_double_dyadic:
  assumes "0 \<le> k" and "k < 2 ^ 39"
  shows "ConvertPrice_double (of_int k / 256) =
     Inr (to_string (k div 256) @ ''-'' @ str32 (k mod 256 div 8) @ str8 (k mod 8))"
proof -
  have f1: "\<lfloor>(of_int k :: rat) / 256\<rfloor> = k div 256"
    using floor_divide_of_int_eq [of k 256, where ?'a = rat] by simp
  have r1: "- (2 ^ 31) \<le> k div 256 \<and> k div 256 < 2 ^ 31"
    using assms by (simp, arith)
  have "((of_int k :: rat) / 256 - of_int (k div 256)) * 256 = of_int (k mod 256)"
  proof -
    define q r where "q = k div 256" and "r = k mod 256"
    have "k = 256 * q + r" by (simp add: q_def r_def)
    then have "(of_int k :: rat) = 256 * of_int q + of_int r" by simp
    then have "((of_int k :: rat) / 256 - of_int q) * 256 = of_int r"
      by (simp add: add_divide_distrib)
    then show ?thesis by (simp only: q_def r_def)
  qed
  then have f2: "\<lfloor>((of_int k :: rat) / 256 - of_int (k div 256)) * 256\<rfloor> = k mod 256"
    by simp
  have r2: "- (2 ^ 31) \<le> k mod 256 \<and> k mod 256 < 2 ^ 31"
  proof -
    have "0 \<le> k mod 256" "k mod 256 < 256" by simp_all
    then show ?thesis by (rule small_int_in_range)
  qed
  have f3: "\<lfloor>(of_int (k mod 256) :: rat) / 8\<rfloor> = k mod 256 div 8"
    using floor_divide_of_int_eq [of "k mod 256" 8, where ?'a = rat] by simp
  have r3: "- (2 ^ 31) \<le> k mod 256 div 8 \<and> k mod 256 div 8 < 2 ^ 31"
  proof -
    have "k mod 256 div 8 < 32" by simp
    then have "k mod 256 div 8 < 256" by (rule less_trans) simp
    moreover have "0 \<le> k mod 256 div 8" by simp
    ultimately show ?thesis by (rule small_int_in_range [rotated])
  qed
  have f4: "k mod 256 smod 8 = k mod 8"
  proof -
    have "0 \<le> k mod 256" by simp
    then have "k mod 256 smod 8 = k mod 256 mod 8"
      by (simp add: smod_int_alt_def sgn_if)
    also have "\<dots> = k mod 8" by (simp add: mod_mod_cancel)
    finally show ?thesis .
  qed
  have d1: "double_to_int (of_int (k div 256)) = Inr (k div 256)"
    using r1 by (simp only: double_to_int_of_int simp_thms if_True)
  have d2: "double_to_int (of_int (k mod 256)) = Inr (k mod 256)"
    using r2 by (simp only: double_to_int_of_int simp_thms if_True)
  have d3: "double_to_int (of_int (k mod 256 div 8)) = Inr (k mod 256 div 8)"
    using r3 by (simp only: double_to_int_of_int simp_thms if_True)
  show ?thesis
    by (simp only: ConvertPrice_double_def f1 d1 f2 d2 f3 d3 f4 sum.case Let_def
        str32_def str8_def)
qed

lemma ConvertPrice_string_dyadic:
  assumes "0 \<le> k"
  shows "ConvertPrice_string (to_string (k div 256) @ ''-'' @ str32 (k mod 256 div 8) @ str8 (k mod 8))
     = Inr (of_int k / 256)"
proof -
  let ?n = "k div 256" and ?a = "k mod 256 div 8" and ?c = "k mod 8"
  have n0: "0 \<le> ?n" using assms by (simp add: pos_imp_zdiv_nonneg_iff)
  have a0: "0 \<le> ?a" "?a < 32" by simp_all
  have c0: "0 \<le> ?c" "?c < 8" by simp_all
  obtain x y where xy: "str32 ?a = [x, y]" "is_digit x" "is_digit y"
      "digits_val 0 [x, y] = nat ?a"
    using str32_props [OF a0] by blast
  obtain z where z: "str8 ?c = [z]" "z \<noteq> CHR ''-''"
      "is_digit (if z = CHR ''+'' then CHR ''4'' else z)"
      "digit_val (if z = CHR ''+'' then CHR ''4'' else z) = nat ?c"
    using str8_props [OF c0] by blast
  let ?ds = "digits_of (nat ?n)"
  have ds: "list_all is_digit ?ds" "?ds \<noteq> []" "digits_val 0 ?ds = nat ?n"
    using digits_of_props [of "nat ?n"] by simp_all
  have sp: "split_price (0, [], [], []) (?ds @ CHR ''-'' # [x, y] @ [z]) =
      (3, ?ds, [x, y], [if z = CHR ''+'' then CHR ''4'' else z])"
    using split_price_whole [OF ds(1), of "[]" "[]" "[]" "CHR ''-'' # [x, y] @ [z]"]
      split_price_fraction [OF xy(2,3) z(2), of ?ds]
    by simp
  have s1: "stod ?ds = Inr (of_nat (nat ?n))"
    using stod_digits [OF ds(1,2)] by (simp add: ds(3))
  have s2: "stod [x, y] = Inr (of_nat (nat ?a))"
    using stod_digits [of "[x, y]"] xy by simp
  have s3: "stod [if z = CHR ''+'' then CHR ''4'' else z] = Inr (of_nat (nat ?c))"
    using stod_digits [of "[if z = CHR ''+'' then CHR ''4'' else z]"] z(3,4) by simp
  have sum: "(of_int k :: rat) / 256 = of_int ?n + of_int ?a / 32 + of_int ?c / 256"
  proof -
    define n a c where "n = k div 256" and "a = k mod 256 div 8" and "c = k mod 8"
    have "k mod 256 mod 8 = c" by (simp add: c_def mod_mod_cancel)
    moreover have "k mod 256 = 8 * a + k mod 256 mod 8" by (simp add: a_def)
    moreover have "k = 256 * n + k mod 256" by (simp add: n_def)
    ultimately have "k = 256 * n + (8 * a + c)" by simp
    then have "(of_int k :: rat) = 256 * of_int n + (8 * of_int a + of_int c)" by simp
    then have "(of_int k :: rat) / 256 = of_int n + of_int a / 32 + of_int c / 256"
      by (simp add: add_divide_distrib)
    then show ?thesis by (simp only: n_def a_def c_def)
  qed
  have conv: "(of_nat (nat ?n) :: rat) = of_int ?n" "(of_nat (nat ?a) :: rat) = of_int ?a"
    "(of_nat (nat ?c) :: rat) = of_int ?c"
    using n0 a0 c0 by simp_all
  have "ConvertPrice_string (?ds @ CHR ''-'' # [x, y] @ [z]) =
      Inr (of_int ?n + of_int ?a * 1 / 32 + of_int ?c * 1 / 256)"
    unfolding ConvertPrice_string_def sp by (simp add: s1 s2 s3 conv)
  then show ?thesis
    by (simp add: to_string_nonneg [OF n0] xy(1) z(1) sum)
qed

text \<open>
  C2 (as amended). For every price \<open>p = k/256\<close> with \<open>0 \<le> p < 2^31\<close>, \<^verbatim>\<open>ConvertPrice(double)\<close>
  returns the string AAA-BBC made of the whole points, the 32nds on two digits and the
  eighths of a 32nd on one character, which is \<open>+\<close> exactly when that digit is 4; and
  \<^verbatim>\<open>ConvertPrice(string)\<close> reads this string back as \<open>p\<close>.
\<close>

theorem ConvertPrice_round_trip:
  assumes "0 \<le> k" and "k < 2 ^ 39"
  shows "ConvertPrice_double (of_int k / 256) =
           Inr (to_string (k div 256) @ ''-'' @ str32 (k mod 256 div 8) @ str8 (k mod 8))
    \<and> (str8 (k mod 8) = ''+'') = (k mod 8 = 4)
    \<and> price_round_trip (of_int k / 256) = Inr (of_int k / 256)"
proof -
  have rt: "price_round_trip (of_int k / 256) = Inr (of_int k / 256)"
    by (simp only: price_round_trip_def ConvertPrice_double_dyadic [OF assms] sum.case
        ConvertPrice_string_dyadic [OF assms(1)])
  have plus: "(str8 (k mod 8) = ''+'') = (k mod 8 = 4)"
  proof (cases "k mod 8 = 4")
    case True
    then show ?thesis by (simp add: str8_def)
  next
    case False
    have c: "0 \<le> k mod 8" "nat (k mod 8) < 10" by simp_all
    from False have "str8 (k mod 8) = [digit_char (nat (k mod 8))]"
      by (simp add: str8_def to_string_nonneg [OF c(1)] digits_of_small [OF c(2)])
    with False digit_char_props(4) [OF c(2)] show ?thesis by simp
  qed
  from ConvertPrice_double_dyadic [OF assms] plus rt show ?thesis by blast
qed

theorem ConvertPrice_round_trip_witness:
  "(0::int) \<le> 25476 \<and> (25476::int) < 2 ^ 39
   \<and> ConvertPrice_double (25476 / 256) = Inr ''99-16+''
   \<and> price_round_trip (25476 / 256) = Inr (25476 / 256)"
proof -
  have a: "(0::int) \<le> 25476" and b: "(25476::int) < 2 ^ 39" by simp_all
  have s1: "to_string 99 = ''99''" by code_simp
  have s2: "str32 16 = ''16''" by code_simp
  have s3: "str8 4 = ''+''" by code_simp
  from ConvertPrice_round_trip [OF a b] show ?thesis
    by (simp add: s1 s2 s3)
qed

text \<open>
  The price \<open>2^31 = 549755813888/256\<close> is a non-negative multiple of 1/256, but its whole
  points are not an \<^verbatim>\<open>int\<close>: the conversion in \<^verbatim>\<open>ConvertPrice(double)\<close> is undefined
  and no string comes back.
\<close>

theorem ConvertPrice_round_trip_fails_at_2_31:
  "(0::int) \<le> 549755813888 \<and> (2147483648 :: rat) = of_int 549755813888 / 256
   \<and> ConvertPrice_double 2147483648 = Inl IntConversion
   \<and> price_round_trip 2147483648 \<noteq> Inr 2147483648"
  by (simp add: price_round_trip_def ConvertPrice_double_def double_to_int_def)

section \<open>Pricing connector and the bond lookup\<close>


lemma GetBond_unknown: "cusip \<notin> set known_cusips \<Longrightarrow> GetBond cusip = Bond_default"
  by (simp add: GetBond_def known_cusips_def Let_def)

lemma PricingConnector_Subscribe_line_cells:
  assumes "split_cells [] line = productId # bidCell # offerCell # others"
    and "stod bidCell = Inr bid" and "stod offerCell = Inr offer"
  shows "PricingConnector_Subscribe_line s line =
     Inr (PricingService_OnMessage s
            (mkPrice (GetBond productId) ((bid + offer) / 2) (offer - bid)))"
  using assms by (simp add: PricingConnector_Subscribe_line_def cell_at_def Let_def)


lemma cells_XYZ: "split_cells [] ''XYZ,99,100'' = [''XYZ'', ''99'', ''100'']"
  by simp

lemma stod_99: "stod ''99'' = Inr 99"
  by code_simp

lemma stod_100: "stod ''100'' = Inr 100"
  by code_simp






lemma MarketDataConnector_Subscribe_line_full:
  assumes "MarketDataConnector_read_line line = Inr (productId, order)" and "cnt + 1 = thread"
  shows "MarketDataConnector_Subscribe_line thread (s, ev, cnt, bidStack, offerStack) line =
     Inr (fst (MarketDataService_OnMessage s
            \<lparr>OB_product = GetBond productId,
             OB_bidStack = bidStack @ (if Order_side order = BID then [order] else []),
             OB_offerStack = offerStack @ (if Order_side order = OFFER then [order] else [])\<rparr>),
          ev @ snd (MarketDataService_OnMessage s
            \<lparr>OB_product = GetBond productId,
             OB_bidStack = bidStack @ (if Order_side order = BID then [order] else []),
             OB_offerStack = offerStack @ (if Order_side order = OFFER then [order] else [])\<rparr>),
          0, [], [])"
  using assms
  by (cases "Order_side order")
     (simp_all add: MarketDataConnector_Subscribe_line_def Let_def case_prod_beta)

lemma MarketDataConnector_Subscribe_line_partial:
  assumes "MarketDataConnector_read_line line = Inr (productId, order)" and "cnt + 1 \<noteq> thread"
  shows "MarketDataConnector_Subscribe_line thread (s, ev, cnt, bidStack, offerStack) line =
     Inr (s, ev, cnt + 1,
          bidStack @ (if Order_side order = BID then [order] else []),
          offerStack @ (if Order_side order = OFFER then [order] else []))"
  using assms
  by (cases "Order_side order")
     (simp_all add: MarketDataConnector_Subscribe_line_def Let_def)

text \<open>
  C9. For an identifier that is none of the six known CUSIPs, \<^verbatim>\<open>GetBond\<close> returns the
  default-constructed bond, whose fields are empty, and does not fail. The row is ingested
  all the same: a well-formed price row reaches \<^verbatim>\<open>PricingService::OnMessage\<close> with a
  price of the default bond, and a market data row that completes a group has its order
  book delivered and stored for the default bond.
\<close>

theorem GetBond_unknown_cusip_is_default_and_row_proceeds:
  assumes "cusip \<notin> set known_cusips"
  shows "GetBond cusip = Bond_default
    \<and> Bond_productId (GetBond cusip) = [] \<and> Bond_ticker (GetBond cusip) = []
    \<and> Bond_maturityDate (GetBond cusip) = [] \<and> Bond_coupon (GetBond cusip) = 0
    \<and> (\<forall>s line bidCell offerCell others bid offer.
          split_cells [] line = cusip # bidCell # offerCell # others
          \<longrightarrow> stod bidCell = Inr bid \<longrightarrow> stod offerCell = Inr offer
          \<longrightarrow> PricingConnector_Subscribe_line s line =
                Inr (PricingService_OnMessage s
                       (mkPrice Bond_default ((bid + offer) / 2) (offer - bid))))
    \<and> (\<forall>thread s ev cnt bidStack offerStack line order.
          MarketDataConnector_read_line line = Inr (cusip, order) \<longrightarrow> cnt + 1 = thread
          \<longrightarrow> (\<exists>s' ev'. MarketDataConnector_Subscribe_line thread
                           (s, ev, cnt, bidStack, offerStack) line = Inr (s', ev', 0, [], [])
                 \<and> map_option OB_product (orderBooks s' []) = Some Bond_default))"
proof -
  have d: "GetBond cusip = Bond_default"
    using assms by (rule GetBond_unknown)
  have f: "Bond_productId (GetBond cusip) = [] \<and> Bond_ticker (GetBond cusip) = []
    \<and> Bond_maturityDate (GetBond cusip) = [] \<and> Bond_coupon (GetBond cusip) = 0"
    by (simp add: d Bond_default_def)
  have p: "PricingConnector_Subscribe_line s line =
        Inr (PricingService_OnMessage s (mkPrice Bond_default ((bid + offer) / 2) (offer - bid)))"
    if "split_cells [] line = cusip # bidCell # offerCell # others"
      and "stod bidCell = Inr bid" and "stod offerCell = Inr offer"
    for s line bidCell offerCell others bid offer
    using PricingConnector_Subscribe_line_cells [OF that, of s] by (simp add: d)
  have m: "\<exists>s' ev'. MarketDataConnector_Subscribe_line thread
                 (s, ev, cnt, bidStack, offerStack) line = Inr (s', ev', 0, [], [])
             \<and> map_option OB_product (orderBooks s' []) = Some Bond_default"
    if "MarketDataConnector_read_line line = Inr (cusip, order)" and "cnt + 1 = thread"
    for thread s ev cnt bidStack offerStack line order
    using MarketDataConnector_Subscribe_line_full [OF that, of s ev bidStack offerStack]
    by (simp add: d MarketDataService_OnMessage_def Let_def Bond_default_def)
  from d f p m show ?thesis by blast
qed

lemma stol_1000000: "stol ''1000000'' = Inr 1000000"
  by (simp add: stol_def unsigned_digits_def long_of_int_def is_digit_def digit_val_def)

lemma ConvertPrice_string_99_16_plus: "ConvertPrice_string ''99-16+'' = Inr (25476 / 256)"
  by code_simp

lemma read_line_XYZ:
  "MarketDataConnector_read_line ''XYZ,99-16+,1000000,OFFER'' =
     Inr (''XYZ'', mkOrder (25476 / 256) 1000000 OFFER)"
proof -
  have "split_cells [] ''XYZ,99-16+,1000000,OFFER'' = [''XYZ'', ''99-16+'', ''1000000'', ''OFFER'']"
    by simp
  then show ?thesis
    by (simp add: MarketDataConnector_read_line_def cell_at_def Let_def
        ConvertPrice_string_99_16_plus stol_1000000)
qed

theorem GetBond_unknown_cusip_is_default_and_row_proceeds_witness:
  "''XYZ'' \<notin> set known_cusips \<and> GetBond ''XYZ'' = Bond_default
   \<and> PricingConnector_Subscribe_line PricingService_init ''XYZ,99,100'' =
       Inr (PricingService_OnMessage PricingService_init (mkPrice Bond_default (199 / 2) 1))
   \<and> (\<exists>s' ev'. MarketDataConnector_Subscribe_line 10
         (MarketDataService_init, [], 9, [], []) ''XYZ,99-16+,1000000,OFFER'' = Inr (s', ev', 0, [], [])
       \<and> map_option OB_product (orderBooks s' []) = Some Bond_default)"
proof -
  have u: "''XYZ'' \<notin> set known_cusips" by (simp add: known_cusips_def)
  note t = GetBond_unknown_cusip_is_default_and_row_proceeds [OF u]
  have a: "GetBond ''XYZ'' = Bond_default" using t by blast
  have b: "PricingConnector_Subscribe_line PricingService_init ''XYZ,99,100'' =
       Inr (PricingService_OnMessage PricingService_init
              (mkPrice Bond_default ((99 + 100) / 2) (100 - 99)))"
    using t cells_XYZ stod_99 stod_100 by blast
  have c: "\<exists>s' ev'. MarketDataConnector_Subscribe_line 10
         (MarketDataService_init, [], 9, [], []) ''XYZ,99-16+,1000000,OFFER'' = Inr (s', ev', 0, [], [])
       \<and> map_option OB_product (orderBooks s' []) = Some Bond_default"
  proof -
    have "(9::int) + 1 = 10" by simp
    with t read_line_XYZ show ?thesis by blast
  qed
  from u a b c show ?thesis by simp
qed

section \<open>Market data connector: groups of rows\<close>

lemma full_groups_short: "n = 0 \<or> length xs < n \<Longrightarrow> full_groups n xs = []"
  by (simp add: full_groups.simps [of n xs])

lemma full_groups_step:
  "0 < n \<Longrightarrow> n \<le> length xs \<Longrightarrow> full_groups n xs = take n xs # full_groups n (drop n xs)"
  by (simp add: full_groups.simps [of n xs])

lemma length_full_groups: "length (full_groups n xs) = length xs div n"
proof (induction n xs rule: full_groups.induct)
  case (1 n xs)
  show ?case
  proof (cases "n = 0 \<or> length xs < n")
    case True
    then show ?thesis by (auto simp: full_groups_short)
  next
    case False
    then have n: "0 < n" "n \<le> length xs" by simp_all
    from 1 [OF False] show ?thesis
      by (simp add: full_groups_step [OF n] le_div_geq [OF n])
  qed
qed

lemma concat_full_groups: "concat (full_groups n xs) = take (n * (length xs div n)) xs"
proof (induction n xs rule: full_groups.induct)
  case (1 n xs)
  show ?case
  proof (cases "n = 0 \<or> length xs < n")
    case True
    then show ?thesis by (auto simp: full_groups_short)
  next
    case False
    then have n: "0 < n" "n \<le> length xs" by simp_all
    have "take (n * (length xs div n)) xs = take (n + n * ((length xs - n) div n)) xs"
      by (simp add: le_div_geq [OF n])
    also have "\<dots> = take n xs @ take (n * ((length xs - n) div n)) (drop n xs)"
      by (rule take_add)
    finally show ?thesis
      using 1 [OF False] by (simp add: full_groups_step [OF n])
  qed
qed

lemma bids_of_snoc:
  "bids_of (g @ [(p, x)]) = bids_of g @ (if Order_side x = BID then [x] else [])"
  by (simp add: bids_of_def)

lemma offers_of_snoc:
  "offers_of (g @ [(p, x)]) = offers_of g @ (if Order_side x = OFFER then [x] else [])"
  by (simp add: offers_of_def)

lemma book_of_group_snoc:
  "book_of_group (g @ [(p, x)]) =
     \<lparr>OB_product = GetBond p,
      OB_bidStack = bids_of g @ (if Order_side x = BID then [x] else []),
      OB_offerStack = offers_of g @ (if Order_side x = OFFER then [x] else [])\<rparr>"
  by (simp add: book_of_group_def bids_of_def offers_of_def)

lemma loop_without_thread:
  assumes "thread \<le> 0" and "0 \<le> cnt"
    and "map MarketDataConnector_read_line lines = map Inr rows"
  shows "\<exists>cnt' b a. MarketDataConnector_loop thread (s, ev, cnt, bs, os) lines = Inr (s, ev, cnt', b, a)"
  using assms(2,3)
proof (induction lines arbitrary: rows cnt bs os)
  case Nil
  then show ?case by simp
next
  case (Cons l ls)
  from Cons.prems(2) obtain r rs where rows: "rows = r # rs"
    and l: "MarketDataConnector_read_line l = Inr r"
    and ls: "map MarketDataConnector_read_line ls = map Inr rs"
    by (cases rows) auto
  obtain p x where r: "r = (p, x)" by (cases r)
  have ne: "cnt + 1 \<noteq> thread" using assms(1) Cons.prems(1) by simp
  have c: "0 \<le> cnt + 1" using Cons.prems(1) by simp
  from Cons.IH [OF c ls] show ?case
    by (simp add: MarketDataConnector_Subscribe_line_partial [OF l [unfolded r] ne])
qed

lemma loop_with_thread:
  assumes "0 < thread"
    and "map MarketDataConnector_read_line lines = map Inr rows"
    and "int (length pend) < thread"
  shows "\<exists>cnt' b a. MarketDataConnector_loop thread
            (s, ev, int (length pend), bids_of pend, offers_of pend) lines =
          Inr (fst (deliver_all s (map book_of_group (full_groups (nat thread) (pend @ rows)))),
               ev @ snd (deliver_all s (map book_of_group (full_groups (nat thread) (pend @ rows)))),
               cnt', b, a)"
  using assms(2,3)
proof (induction lines arbitrary: rows pend s ev)
  case Nil
  then have "full_groups (nat thread) (pend @ rows) = []"
    by (simp add: full_groups_short)
  with Nil show ?case by simp
next
  case (Cons l ls)
  from Cons.prems(1) obtain r rs where rows: "rows = r # rs"
    and l: "MarketDataConnector_read_line l = Inr r"
    and ls: "map MarketDataConnector_read_line ls = map Inr rs"
    by (cases rows) auto
  obtain p x where r: "r = (p, x)" by (cases r)
  note l' = l [unfolded r]
  show ?case
  proof (cases "int (length pend) + 1 = thread")
    case True
    let ?g = "pend @ [(p, x)]"
    let ?B = "book_of_group ?g"
    have len: "length ?g = nat thread" using True by simp
    have fg: "full_groups (nat thread) (pend @ rows) = ?g # full_groups (nat thread) rs"
    proof -
      have eq: "pend @ rows = ?g @ rs" by (simp add: rows r)
      have "0 < length ?g" "length ?g \<le> length (?g @ rs)" by simp_all
      from full_groups_step [OF this] have
        "full_groups (length ?g) (?g @ rs) = ?g # full_groups (length ?g) rs"
        by simp
      then show ?thesis by (simp only: eq len)
    qed
    have e: "int (length ([] :: (string \<times> Order) list)) < thread" using assms(1) by simp
    obtain s1 ev1 where om: "MarketDataService_OnMessage s ?B = (s1, ev1)"
      by (cases "MarketDataService_OnMessage s ?B")
    from Cons.IH [OF ls e, of s1 "ev @ ev1"]
    obtain cnt' b a where ih: "MarketDataConnector_loop thread (s1, ev @ ev1, 0, [], []) ls =
          Inr (fst (deliver_all s1 (map book_of_group (full_groups (nat thread) rs))),
               (ev @ ev1) @ snd (deliver_all s1 (map book_of_group (full_groups (nat thread) rs))),
               cnt', b, a)"
      by (auto simp: bids_of_def offers_of_def)
    have step: "MarketDataConnector_Subscribe_line thread
        (s, ev, int (length pend), bids_of pend, offers_of pend) l = Inr (s1, ev @ ev1, 0, [], [])"
      using MarketDataConnector_Subscribe_line_full [OF l' True, of s ev "bids_of pend" "offers_of pend"]
      by (simp add: book_of_group_snoc [symmetric] om)
    show ?thesis
      using ih by (simp add: step fg om case_prod_beta)
  next
    case False
    have lt: "int (length (pend @ [(p, x)])) < thread"
      using Cons.prems(2) False by simp
    have step: "MarketDataConnector_Subscribe_line thread
        (s, ev, int (length pend), bids_of pend, offers_of pend) l =
        Inr (s, ev, int (length (pend @ [(p, x)])), bids_of (pend @ [(p, x)]), offers_of (pend @ [(p, x)]))"
      using MarketDataConnector_Subscribe_line_partial [OF l' False, of s ev "bids_of pend" "offers_of pend"]
      by (simp add: bids_of_snoc offers_of_snoc add.commute)
    from Cons.IH [OF ls lt, of s ev] show ?thesis
      by (simp add: step rows r)
  qed
qed

text \<open>
  C10. For a file whose every line is read without an exception, \<^verbatim>\<open>Subscribe\<close> hands
  \<^verbatim>\<open>MarketDataService::OnMessage\<close> exactly the order books of the full groups of
  \<open>2 * bookDepth\<close> consecutive rows, one book per group and in the order of the file: their
  number is the number of lines divided by \<open>2 * bookDepth\<close> (rounded down), and together the
  groups are the first \<open>2 * bookDepth * (lines div (2 * bookDepth))\<close> rows. The rows after
  the last full group enter no book and raise no error.
\<close>

theorem MarketDataConnector_one_book_per_full_group:
  assumes "map MarketDataConnector_read_line lines = map Inr rows"
  shows "MarketDataConnector_Subscribe s lines =
      Inr (deliver_all s (map book_of_group (full_groups (nat (bookDepth s * 2)) rows)))
    \<and> length (full_groups (nat (bookDepth s * 2)) rows) = length lines div nat (bookDepth s * 2)
    \<and> concat (full_groups (nat (bookDepth s * 2)) rows) =
        take (nat (bookDepth s * 2) * (length lines div nat (bookDepth s * 2))) rows"
proof -
  let ?n = "nat (bookDepth s * 2)"
  have len: "length rows = length lines"
    using assms by (metis length_map)
  have 1: "MarketDataConnector_Subscribe s lines =
      Inr (deliver_all s (map book_of_group (full_groups ?n rows)))"
  proof (cases "0 < bookDepth s * 2")
    case True
    have e: "int (length ([] :: (string \<times> Order) list)) < bookDepth s * 2" using True by simp
    from loop_with_thread [OF True assms e, of s "[]"]
    show ?thesis
      by (auto simp: MarketDataConnector_Subscribe_def Let_def bids_of_def offers_of_def)
  next
    case False
    then have le: "bookDepth s * 2 \<le> 0" by simp
    then have "full_groups ?n rows = []" by (simp add: full_groups_short)
    moreover from loop_without_thread [OF le _ assms, of 0 s "[]" "[]" "[]"]
    obtain cnt' b a where
      "MarketDataConnector_loop (bookDepth s * 2) (s, [], 0, [], []) lines = Inr (s, [], cnt', b, a)"
      by auto
    ultimately show ?thesis
      by (simp add: MarketDataConnector_Subscribe_def Let_def)
  qed
  from 1 length_full_groups [of ?n rows] concat_full_groups [of ?n rows] show ?thesis
    by (simp add: len)
qed

lemma stol_2000000: "stol ''2000000'' = Inr 2000000"
  by (simp add: stol_def unsigned_digits_def long_of_int_def is_digit_def digit_val_def)

lemma ConvertPrice_string_99_170: "ConvertPrice_string ''99-170'' = Inr (25480 / 256)"
  by code_simp

lemma read_bid_line: "MarketDataConnector_read_line bid_line = Inr bid_row"
proof -
  have "split_cells [] bid_line = [''9128283H1'', ''99-16+'', ''1000000'', ''BID'']"
    by (simp add: bid_line_def)
  then show ?thesis
    by (simp add: MarketDataConnector_read_line_def cell_at_def Let_def bid_row_def
        ConvertPrice_string_99_16_plus stol_1000000)
qed

lemma read_offer_line: "MarketDataConnector_read_line offer_line = Inr offer_row"
proof -
  have "split_cells [] offer_line = [''9128283H1'', ''99-170'', ''2000000'', ''OFFER'']"
    by (simp add: offer_line_def)
  then show ?thesis
    by (simp add: MarketDataConnector_read_line_def cell_at_def Let_def offer_row_def
        ConvertPrice_string_99_170 stol_2000000)
qed

lemma full_groups_twelve_rows: "full_groups 10 twelve_rows = [take 10 twelve_rows]"
proof -
  have "full_groups 10 twelve_rows = take 10 twelve_rows # full_groups 10 (drop 10 twelve_rows)"
    by (rule full_groups_step) (simp_all add: twelve_rows_def)
  moreover have "full_groups 10 (drop 10 twelve_rows) = []"
    by (rule full_groups_short) (simp add: twelve_rows_def)
  ultimately show ?thesis by simp
qed

lemma book_of_first_ten: "book_of_group (take 10 twelve_rows) = ten_row_book"
  by (simp add: twelve_rows_def book_of_group_def ten_row_book_def bid_row_def offer_row_def
      mkOrder_def)

theorem MarketDataConnector_one_book_per_full_group_witness:
  "map MarketDataConnector_read_line twelve_lines = map Inr twelve_rows
   \<and> MarketDataConnector_Subscribe (MarketDataService_AddListener MarketDataService_init 3)
        twelve_lines =
       Inr (\<lparr>orderBooks = [''9128283H1'' \<mapsto> ten_row_book], MDS_listeners = [3], bookDepth = 5\<rparr>,
            [ProcessAdd 3 ten_row_book])
   \<and> length (full_groups 10 twelve_rows) = 12 div 10
   \<and> concat (full_groups 10 twelve_rows) = take 10 twelve_rows"
proof -
  have h: "map MarketDataConnector_read_line twelve_lines = map Inr twelve_rows"
    by (simp add: twelve_lines_def twelve_rows_def read_bid_line read_offer_line)
  have d: "nat (bookDepth (MarketDataService_AddListener MarketDataService_init 3) * 2) = 10"
    by (simp add: MarketDataService_AddListener_def MarketDataService_init_def)
  have l: "length twelve_lines = 12" by (simp add: twelve_lines_def)
  have p: "Bond_productId (OB_product ten_row_book) = ''9128283H1''"
    by (simp add: ten_row_book_def GetBond_def mkBond_def)
  from MarketDataConnector_one_book_per_full_group [OF h, of "MarketDataService_AddListener MarketDataService_init 3"]
  show ?thesis
    unfolding d l
    by (simp add: h full_groups_twelve_rows book_of_first_ten MarketDataService_OnMessage_def
        MarketDataService_AddListener_def MarketDataService_init_def dispatch_def Let_def p)
qed

end
